theory Spec2Isabelle
  imports Complex_Main "HOL-Library.Sublist"
begin

section \<open>Values shared by the executor and its providers\<close>

text \<open>
  A JavaScript \<^verbatim>\<open>number\<close> as the configuration produces it with
  \<^verbatim>\<open>parseFloat\<close>: a finite value, one of the two infinities, or
  \<^verbatim>\<open>NaN\<close>. Only the comparison \<^verbatim>\<open>x > 0\<close> and the scaling
  \<^verbatim>\<open>x * LAMPORTS_PER_SOL\<close> are used; rounding of the product is not modelled
  (it never changes the sign).
\<close>

datatype number = NaN | Finite real | PosInfinity | NegInfinity

fun gt_zero :: "number \<Rightarrow> bool" where
  "gt_zero (Finite r) = (0 < r)"
| "gt_zero PosInfinity = True"
| "gt_zero NegInfinity = False"
| "gt_zero NaN = False"

definition LAMPORTS_PER_SOL :: real where
  "LAMPORTS_PER_SOL = 1000000000"

fun to_lamports :: "number \<Rightarrow> number" where
  "to_lamports (Finite r) = Finite (r * LAMPORTS_PER_SOL)"
| "to_lamports x = x"

text \<open>
  A thrown value: an \<^verbatim>\<open>Error\<close> (or a subclass such as
  \<^verbatim>\<open>ExecutorError\<close>) with its message, or something that is not an
  \<^verbatim>\<open>Error\<close>. \<open>errorMessage\<close> is the expression
  \<^verbatim>\<open>error instanceof Error ? error.message : 'Unknown error'\<close>.
\<close>

datatype exn = Error string | NonError

fun errorMessage :: "exn \<Rightarrow> string" where
  "errorMessage (Error m) = m"
| "errorMessage NonError = ''Unknown error''"

text \<open>\<^verbatim>\<open>s || d\<close> on an optional string: undefined and the empty string are falsy.\<close>

fun or_default :: "string option \<Rightarrow> string \<Rightarrow> string" where
  "or_default None d = d"
| "or_default (Some s) d = (if s = [] then d else s)"

datatype ExecutionStrategy =
  JITO_ONLY | BLOXROUTE_ONLY | NOZOMI_ONLY | HYBRID | FALLBACK | AUTO

record ExecutionResult =
  success :: bool
  signature :: "string option"
  error :: "string option"
  strategy :: "ExecutionStrategy option"
  executionTime :: "nat option"
  retryCount :: "nat option"
  provider :: "string option"

definition MAX_RETRY_ATTEMPTS :: int where
  "MAX_RETRY_ATTEMPTS = 3"

section \<open>ConfigManager: provider availability\<close>

text \<open>
  The configuration records, with the fields the executor reads. \<open>maxRetries\<close> is the
  result of \<^verbatim>\<open>parseInt\<close>: an integer, or \<open>None\<close> when it is
  \<^verbatim>\<open>NaN\<close> or undefined (both falsy).
\<close>

record ExecutorConfig =
  useJito :: bool
  useBloxRoute :: bool
  useNozomi :: bool
  jitoTipAmount :: number
  bloxRouteFee :: number
  nozomiTipAmount :: number
  maxRetries :: "int option"

record JitoConfig =
  tipAmount :: number

record BloxRouteConfig =
  authHeader :: string
  fee :: number

record NozomiConfig =
  apiKey :: string
  endpoint :: string
  tipAmount :: number

record ConfigManager =
  executorConfig :: ExecutorConfig
  jitoConfig :: JitoConfig
  bloxRouteConfig :: BloxRouteConfig
  nozomiConfig :: NozomiConfig
  wallet :: string

definition isJitoEnabled :: "ConfigManager \<Rightarrow> bool" where
  "isJitoEnabled c =
     (useJito (executorConfig c) \<and> gt_zero (JitoConfig.tipAmount (jitoConfig c)))"

definition isBloxRouteEnabled :: "ConfigManager \<Rightarrow> bool" where
  "isBloxRouteEnabled c =
     (useBloxRoute (executorConfig c) \<and>
      authHeader (bloxRouteConfig c) \<noteq> [] \<and>
      gt_zero (fee (bloxRouteConfig c)))"

definition isNozomiEnabled :: "ConfigManager \<Rightarrow> bool" where
  "isNozomiEnabled c =
     (useNozomi (executorConfig c) \<and>
      apiKey (nozomiConfig c) \<noteq> [] \<and>
      gt_zero (NozomiConfig.tipAmount (nozomiConfig c)))"

definition getEnabledProviders :: "ConfigManager \<Rightarrow> string list" where
  "getEnabledProviders c =
     (if isJitoEnabled c then [''Jito''] else []) @
     (if isBloxRouteEnabled c then [''BloxRoute''] else []) @
     (if isNozomiEnabled c then [''Nozomi''] else [])"

section \<open>TransactionExecutor: strategy selection\<close>

definition determineOptimalStrategy :: "ConfigManager \<Rightarrow> ExecutionStrategy" where
  "determineOptimalStrategy c =
     (if length (getEnabledProviders c) > 1 then HYBRID
      else if isJitoEnabled c then JITO_ONLY
      else if isBloxRouteEnabled c then BLOXROUTE_ONLY
      else if isNozomiEnabled c then NOZOMI_ONLY
      else FALLBACK)"

section \<open>Transactions, the object store and the environment\<close>

text \<open>
  A \<^verbatim>\<open>Transaction\<close> object of the ledger library, reduced to the fields the
  executors write. Public keys and blockhashes are strings. Objects live in a store
  indexed by address, so that passing a transaction passes a reference and
  \<^verbatim>\<open>cloneTransaction\<close> allocates a new object.
\<close>

datatype instruction = Transfer string string number | Instruction string

record Transaction =
  instructions :: "instruction list"
  recentBlockhash :: "string option"
  lastValidBlockHeight :: "nat option"
  feePayer :: "string option"
  signatures :: "string list"

text \<open>
  The world the executor acts on: the object store with its allocation pointer, the
  delays requested through \<^verbatim>\<open>delay(ms)\<close> in order, the number of calls of
  \<^verbatim>\<open>executeFallback\<close> and the number of direct submission attempts it started.
\<close>

record world =
  heap :: "nat \<Rightarrow> Transaction"
  nextAddr :: nat
  delays :: "nat list"
  fallbackCalls :: nat
  rpcAttempts :: nat

definition modify :: "nat \<Rightarrow> (Transaction \<Rightarrow> Transaction) \<Rightarrow> world \<Rightarrow> world" where
  "modify a f w = w\<lparr>heap := (heap w)(a := f (heap w a))\<rparr>"

text \<open>
  What the collaborators answer during one run of an executor (or one fallback attempt).
  Each field is the outcome of the call of that name: \<open>Inl\<close> is a rejection or a throw.
  \<open>signAndSerialize\<close> stands for \<^verbatim>\<open>sign(...signers)\<close> followed by
  \<^verbatim>\<open>serialize()\<close> and yields the transaction's signature in base58.
  \<open>systemTransfer\<close> is \<^verbatim>\<open>SystemProgram.transfer\<close> building the tip
  instruction: it throws when the lamports are not an integer, which depends on the
  rounding of \<^verbatim>\<open>fee * LAMPORTS_PER_SOL\<close>, so the environment says whether it
  does (\<open>createTipTransaction\<close> covers the same call inside the Jito executor). A
  confirmation error is given with its two renderings, the template literal's and
  \<^verbatim>\<open>JSON.stringify\<close>'s. \<open>elapsed\<close> is \<^verbatim>\<open>Date.now() - startTime\<close>
  where the run reads it. Every call is answered: a call that never settles is not
  modelled.
\<close>

record network =
  getLatestBlockhash :: "exn + string \<times> nat"
  createTipTransaction :: "exn option"
  systemTransfer :: "exn option"
  signAndSerialize :: "exn + string"
  jitoEndpointReplies :: "(string + nat) list"
  sendRawTransaction :: "exn + string"
  confirmTransaction :: "exn + (string \<times> string) option"
  axiosPost :: "exn + string option \<times> string option"
  randomIndex :: nat
  elapsed :: nat

text \<open>
  The environment of one call of \<^verbatim>\<open>executeTransaction\<close>: the library's
  \<^verbatim>\<open>Transaction.from(tx.serialize({requireAllSignatures: false}))\<close> (it may
  throw) and the signatures array \<^verbatim>\<open>serialize\<close> leaves on the transaction it
  is called on (it recompiles the message and may rewrite the array), the answers each
  provider and each fallback attempt (numbered from 0) gets, the instants at which the
  three provider promises settle, and the elapsed time read at the end of the call.
\<close>

record environment =
  transactionFrom :: "Transaction \<Rightarrow> exn + Transaction"
  compiledSignatures :: "Transaction \<Rightarrow> string list"
  jitoNet :: network
  bloxRouteNet :: network
  nozomiNet :: network
  rpcNet :: "nat \<Rightarrow> network"
  jitoSettles :: nat
  bloxRouteSettles :: nat
  nozomiSettles :: nat
  totalElapsed :: nat

definition cloneTransaction :: "environment \<Rightarrow> nat \<Rightarrow> world \<Rightarrow> (exn + nat) \<times> world" where
  "cloneTransaction env a w =
     (let w1 = modify a (\<lambda>t. t\<lparr>signatures := compiledSignatures env (heap w a)\<rparr>) w
      in case transactionFrom env (heap w a) of
           Inl e \<Rightarrow> (Inl e, w1)
         | Inr t \<Rightarrow>
             (Inr (nextAddr w1),
              w1\<lparr>heap := (heap w1)(nextAddr w1 := t), nextAddr := Suc (nextAddr w1)\<rparr>))"

definition providerFailure :: "string \<Rightarrow> string \<Rightarrow> nat \<Rightarrow> ExecutionResult" where
  "providerFailure p msg t =
     \<lparr>success = False, signature = None, error = Some msg, strategy = None,
      executionTime = Some t, retryCount = None, provider = Some p\<rparr>"

definition providerSuccess :: "string \<Rightarrow> string \<Rightarrow> nat \<Rightarrow> ExecutionResult" where
  "providerSuccess p sig t =
     \<lparr>success = True, signature = Some sig, error = None, strategy = None,
      executionTime = Some t, retryCount = None, provider = Some p\<rparr>"

section \<open>The provider executors\<close>

text \<open>
  Each executor runs its body inside \<^verbatim>\<open>try\<close>; the function \<open>*_try\<close> is that
  body (\<open>Inl\<close> is a throw that reaches the \<^verbatim>\<open>catch\<close>), and
  \<open>*_executeTransaction\<close> adds the \<^verbatim>\<open>catch\<close>, which turns the throw into a
  failure result. The second argument \<open>a\<close> is the address of the transaction passed in.
\<close>

fun join :: "string \<Rightarrow> string list \<Rightarrow> string" where
  "join sep [] = []"
| "join sep [x] = x"
| "join sep (x # y # ys) = x @ sep @ join sep (y # ys)"

definition submitToJitoEndpoints :: "(string + nat) list \<Rightarrow> bool \<times> string option" where
  "submitToJitoEndpoints replies =
     (if Inr 200 \<in> set replies then (True, None)
      else (False,
            Some (''All Jito endpoints failed. Errors: '' @
                  join '', '' (List.map_filter (\<lambda>r. case r of Inl m \<Rightarrow> Some m | Inr _ \<Rightarrow> None) replies))))"

definition jito_try ::
  "ConfigManager \<Rightarrow> network \<Rightarrow> nat \<Rightarrow> string list \<Rightarrow> world \<Rightarrow> (exn + ExecutionResult) \<times> world" where
  "jito_try c net a signers w =
     (case getLatestBlockhash net of
        Inl e \<Rightarrow> (Inl e, w)
      | Inr (blockhash, height) \<Rightarrow>
         (case createTipTransaction net of
            Some e \<Rightarrow> (Inl e, w)
          | None \<Rightarrow>
             (let w1 = modify a (\<lambda>t. t\<lparr>recentBlockhash := Some blockhash,
                                         feePayer := Some (wallet c)\<rparr>) w
              in case signAndSerialize net of
                   Inl e \<Rightarrow> (Inl e, w1)
                 | Inr mainTxSignature \<Rightarrow>
                    (let w2 = modify a (\<lambda>t. t\<lparr>signatures := signers\<rparr>) w1
                     in case submitToJitoEndpoints (jitoEndpointReplies net) of
                          (True, _) \<Rightarrow>
                            (case confirmTransaction net of
                               Inl e \<Rightarrow> (Inl e, w2)
                             | Inr (Some err) \<Rightarrow>
                                 (Inr (providerFailure ''jito''
                                         (''Transaction failed: '' @ fst err) (elapsed net)), w2)
                             | Inr None \<Rightarrow>
                                 (Inr (providerSuccess ''jito'' mainTxSignature (elapsed net)), w2))
                        | (False, bundleError) \<Rightarrow>
                            (Inr (providerFailure ''jito''
                                    (or_default bundleError ''No Jito validators accepted the bundle'')
                                    (elapsed net)), w2)))))"

definition jito_executeTransaction ::
  "ConfigManager \<Rightarrow> network \<Rightarrow> nat \<Rightarrow> string list \<Rightarrow> world \<Rightarrow> ExecutionResult \<times> world" where
  "jito_executeTransaction c net a signers w =
     (case jito_try c net a signers w of
        (Inr r, w') \<Rightarrow> (r, w')
      | (Inl e, w') \<Rightarrow>
          (providerFailure ''jito'' (''Jito execution failed: '' @ errorMessage e) (elapsed net), w'))"

definition bloxRouteTipWallet :: string where
  "bloxRouteTipWallet = ''HWEoBxYs7ssKuudEjzjmpfJVX7Dvi7wescFsVx2L5yoY''"

definition addInstruction :: "instruction \<Rightarrow> Transaction \<Rightarrow> Transaction" where
  "addInstruction i t = t\<lparr>instructions := instructions t @ [i]\<rparr>"

text \<open>
  \<^verbatim>\<open>if (tipAmount > 0) transaction.add(SystemProgram.transfer(...))\<close> on the
  transaction at address \<open>a\<close>: nothing to add, a throw of
  \<^verbatim>\<open>SystemProgram.transfer\<close>, or the instruction appended.
\<close>

definition addTip :: "network \<Rightarrow> nat \<Rightarrow> instruction \<Rightarrow> number \<Rightarrow> world \<Rightarrow> exn + world" where
  "addTip net a i tip w =
     (if gt_zero tip
      then (case systemTransfer net of
              Some e \<Rightarrow> Inl e
            | None \<Rightarrow> Inr (modify a (addInstruction i) w))
      else Inr w)"

definition bloxRoute_try ::
  "ConfigManager \<Rightarrow> network \<Rightarrow> nat \<Rightarrow> string list \<Rightarrow> world \<Rightarrow> (exn + ExecutionResult) \<times> world" where
  "bloxRoute_try c net a signers w =
     (if authHeader (bloxRouteConfig c) = []
      then (Inl (Error ''BloxRoute auth header not configured''), w)
      else case getLatestBlockhash net of
        Inl e \<Rightarrow> (Inl e, w)
      | Inr (blockhash, height) \<Rightarrow>
         (let w1 = modify a (\<lambda>t. t\<lparr>recentBlockhash := Some blockhash,
                                     feePayer := Some (wallet c)\<rparr>) w;
              tip = to_lamports (fee (bloxRouteConfig c))
          in case addTip net a (Transfer (wallet c) bloxRouteTipWallet tip) tip w1 of
               Inl e \<Rightarrow> (Inl e, w1)
             | Inr w2 \<Rightarrow>
                (case signAndSerialize net of
                   Inl e \<Rightarrow> (Inl e, w2)
                 | Inr _ \<Rightarrow>
                    (let w3 = modify a (\<lambda>t. t\<lparr>signatures := signers\<rparr>) w2
                     in case sendRawTransaction net of
                          Inl e \<Rightarrow> (Inl e, w3)
                        | Inr sig \<Rightarrow>
                           (case confirmTransaction net of
                              Inl e \<Rightarrow> (Inl e, w3)
                            | Inr (Some err) \<Rightarrow>
                                (Inr (providerFailure ''bloxroute''
                                        (''Transaction failed: '' @ fst err) (elapsed net)), w3)
                            | Inr None \<Rightarrow>
                                (Inr (providerSuccess ''bloxroute'' sig (elapsed net)), w3))))))"

definition bloxRoute_executeTransaction ::
  "ConfigManager \<Rightarrow> network \<Rightarrow> nat \<Rightarrow> string list \<Rightarrow> world \<Rightarrow> ExecutionResult \<times> world" where
  "bloxRoute_executeTransaction c net a signers w =
     (case bloxRoute_try c net a signers w of
        (Inr r, w') \<Rightarrow> (r, w')
      | (Inl e, w') \<Rightarrow>
          (providerFailure ''bloxroute'' (''BloxRoute execution failed: '' @ errorMessage e)
             (elapsed net), w'))"

definition nozomiValidators :: "string list" where
  "nozomiValidators =
     [''TEMPaMeCRFAS9EKF53Jd6KpHxgL47uWLcpFArU1Fanq'',
      ''noz3jAjPiHuBPqiSPkkugaJDkJscPuRhYnSpbi8UvC4'',
      ''noz3str9KXfpKknefHji8L1mPgimezaiUyCHYMDv1GE'',
      ''noz6uoYCDijhu1V7cutCpwxNiSovEwLdRHPwmgCGDNo'']"

text \<open>
  \<^verbatim>\<open>Math.floor(Math.random() * validators.length)\<close> is an index of the list;
  the environment's \<open>randomIndex\<close> is reduced to one.
\<close>

definition getRandomValidator :: "network \<Rightarrow> string" where
  "getRandomValidator net = nozomiValidators ! (randomIndex net mod length nozomiValidators)"

definition nozomi_try ::
  "environment \<Rightarrow> ConfigManager \<Rightarrow> network \<Rightarrow> nat \<Rightarrow> string list \<Rightarrow> world
     \<Rightarrow> (exn + ExecutionResult) \<times> world" where
  "nozomi_try env c net a signers w =
     (let validator = getRandomValidator net;
          tip = to_lamports (nozomiTipAmount (executorConfig c))
      in case cloneTransaction env a w of
           (Inl e, w0) \<Rightarrow> (Inl e, w0)
         | (Inr nozomiTx, w0) \<Rightarrow>
            (case addTip net nozomiTx (Transfer (wallet c) validator tip) tip w0 of
               Inl e \<Rightarrow> (Inl e, w0)
             | Inr w1 \<Rightarrow>
               (case getLatestBlockhash net of
                  Inl e \<Rightarrow> (Inl e, w1)
                | Inr (blockhash, height) \<Rightarrow>
                   (let w2 = modify nozomiTx
                               (\<lambda>t. t\<lparr>recentBlockhash := Some blockhash,
                                       lastValidBlockHeight := Some height,
                                       feePayer := Some (wallet c)\<rparr>) w1
                    in case signAndSerialize net of
                         Inl e \<Rightarrow> (Inl e, w2)
                       | Inr _ \<Rightarrow>
                          (let w3 = modify nozomiTx (\<lambda>t. t\<lparr>signatures := signers\<rparr>) w2
                           in if apiKey (nozomiConfig c) = []
                              then (Inr (providerFailure ''nozomi'' ''Nozomi API key not configured''
                                           (elapsed net)), w3)
                              else case axiosPost net of
                                     Inl e \<Rightarrow> (Inl e, w3)
                                   | Inr (result, message) \<Rightarrow>
                                       (if or_default result [] \<noteq> []
                                        then (Inr (providerSuccess ''nozomi'' (or_default result [])
                                                     (elapsed net)), w3)
                                        else (Inr (providerFailure ''nozomi''
                                                     (''Nozomi submission failed: '' @
                                                      or_default message ''Nozomi submission failed'')
                                                     (elapsed net)), w3)))))))"

definition nozomi_executeTransaction ::
  "environment \<Rightarrow> ConfigManager \<Rightarrow> network \<Rightarrow> nat \<Rightarrow> string list \<Rightarrow> world
     \<Rightarrow> ExecutionResult \<times> world" where
  "nozomi_executeTransaction env c net a signers w =
     (case nozomi_try env c net a signers w of
        (Inr r, w') \<Rightarrow> (r, w')
      | (Inl e, w') \<Rightarrow>
          (providerFailure ''nozomi'' (''Nozomi execution failed: '' @ errorMessage e)
             (elapsed net), w'))"

section \<open>TransactionExecutor: the direct fallback path\<close>

text \<open>
  The body of the \<^verbatim>\<open>try\<close> of one fallback attempt: refresh the blockhash, clone
  the transaction, sign, send and confirm. \<open>Inr\<close> is the confirmed signature.
\<close>

definition fallback_try ::
  "environment \<Rightarrow> ConfigManager \<Rightarrow> network \<Rightarrow> nat \<Rightarrow> string list \<Rightarrow> world
     \<Rightarrow> (exn + string) \<times> world" where
  "fallback_try env c net a signers w =
     (case getLatestBlockhash net of
        Inl e \<Rightarrow> (Inl e, w)
      | Inr (blockhash, height) \<Rightarrow>
         (case cloneTransaction env a w of
            (Inl e, w1) \<Rightarrow> (Inl e, w1)
          | (Inr tx, w1) \<Rightarrow>
             (let w2 = modify tx (\<lambda>t. t\<lparr>recentBlockhash := Some blockhash,
                                          feePayer := Some (wallet c)\<rparr>) w1
              in case signAndSerialize net of
                   Inl e \<Rightarrow> (Inl e, w2)
                 | Inr _ \<Rightarrow>
                    (let w3 = modify tx (\<lambda>t. t\<lparr>signatures := signers\<rparr>) w2
                     in case sendRawTransaction net of
                          Inl e \<Rightarrow> (Inl e, w3)
                        | Inr sig \<Rightarrow>
                           (case confirmTransaction net of
                              Inl e \<Rightarrow> (Inl e, w3)
                            | Inr (Some err) \<Rightarrow>
                                (Inl (Error (''Transaction failed: '' @ snd err)), w3)
                            | Inr None \<Rightarrow> (Inr sig, w3))))))"

definition fallbackResult :: "bool \<Rightarrow> string option \<Rightarrow> string option \<Rightarrow> nat \<Rightarrow> ExecutionResult" where
  "fallbackResult ok sig err retries =
     \<lparr>success = ok, signature = sig, error = err, strategy = None,
      executionTime = None, retryCount = Some retries, provider = Some ''fallback''\<rparr>"

text \<open>
  The \<^verbatim>\<open>while (retries < maxRetries)\<close> loop. Attempt number \<open>retries\<close> (from 0)
  gets the answers \<open>rpcNet env retries\<close>: \<open>retries\<close> grows by one with every failed
  attempt and an attempt that succeeds returns.
\<close>

function fallback_loop ::
  "environment \<Rightarrow> ConfigManager \<Rightarrow> nat \<Rightarrow> string list \<Rightarrow> int \<Rightarrow> nat \<Rightarrow> world
     \<Rightarrow> ExecutionResult \<times> world" where
  "fallback_loop env c a signers maxR retries w =
     (if int retries < maxR then
        (case fallback_try env c (rpcNet env retries) a signers
                (w\<lparr>rpcAttempts := Suc (rpcAttempts w)\<rparr>) of
           (Inr sig, w') \<Rightarrow> (fallbackResult True (Some sig) None retries, w')
         | (Inl e, w') \<Rightarrow>
             (if maxR \<le> int (Suc retries)
              then (fallbackResult False None
                      (Some (''Fallback execution failed: '' @ errorMessage e)) (Suc retries), w')
              else fallback_loop env c a signers maxR (Suc retries)
                     (w'\<lparr>delays := delays w' @ [1000 * Suc retries]\<rparr>)))
      else (fallbackResult False None (Some ''Maximum retry attempts reached'') retries, w))"
  by pat_completeness auto
termination
  by (relation "measure (\<lambda>(env, c, a, signers, maxR, retries, w). nat (maxR - int retries))") auto

declare fallback_loop.simps [simp del]

text \<open>\<^verbatim>\<open>this.config.executorConfig.maxRetries || MAX_RETRY_ATTEMPTS\<close>\<close>

definition effectiveMaxRetries :: "ConfigManager \<Rightarrow> int" where
  "effectiveMaxRetries c =
     (case maxRetries (executorConfig c) of
        None \<Rightarrow> MAX_RETRY_ATTEMPTS
      | Some n \<Rightarrow> (if n = 0 then MAX_RETRY_ATTEMPTS else n))"

definition executeFallback ::
  "environment \<Rightarrow> ConfigManager \<Rightarrow> nat \<Rightarrow> string list \<Rightarrow> world \<Rightarrow> ExecutionResult \<times> world" where
  "executeFallback env c a signers w =
     fallback_loop env c a signers (effectiveMaxRetries c) 0
       (w\<lparr>fallbackCalls := Suc (fallbackCalls w)\<rparr>)"

section \<open>TransactionExecutor: racing the providers\<close>

text \<open>
  A promise that settles at an instant, fulfilled with a value or rejected with a thrown
  value. \<open>promiseAny\<close> registers two callbacks on every promise; they run in the order
  in which the promises settle (promises settling at the same instant run in the order of
  the array). The state is the closure of \<^verbatim>\<open>promiseAny\<close>: how the returned
  promise has settled so far, \<^verbatim>\<open>rejectedCount\<close> and \<^verbatim>\<open>errors\<close>.
  A promise settles once: \<open>settle\<close> keeps the first outcome.
\<close>

datatype 'a settlement = Fulfilled 'a | Rejected exn

record 'a any_state =
  settled :: "(exn + 'a) option"
  rejectedCount :: nat
  errors :: "nat \<Rightarrow> exn option"

definition settle :: "exn + 'a \<Rightarrow> 'a any_state \<Rightarrow> 'a any_state" where
  "settle x st = (case settled st of None \<Rightarrow> st\<lparr>settled := Some x\<rparr> | Some _ \<Rightarrow> st)"

fun promiseAny_callback :: "nat \<Rightarrow> 'a any_state \<Rightarrow> nat \<times> 'a settlement \<Rightarrow> 'a any_state" where
  "promiseAny_callback n st (index, Fulfilled v) = settle (Inr v) st"
| "promiseAny_callback n st (index, Rejected e) =
     (let st' = st\<lparr>errors := (errors st)(index := Some e), rejectedCount := Suc (rejectedCount st)\<rparr>
      in if rejectedCount st' = n then settle (Inl (Error ''All promises rejected'')) st' else st')"

definition settleOrder :: "(nat \<times> 'a settlement) list \<Rightarrow> (nat \<times> 'a settlement) list" where
  "settleOrder promises =
     map (\<lambda>(index, p). (index, snd p)) (sort_key (\<lambda>(index, p). fst p) (enumerate 0 promises))"

text \<open>\<open>None\<close>: the returned promise never settles.\<close>

definition promiseAny :: "(nat \<times> 'a settlement) list \<Rightarrow> (exn + 'a) option" where
  "promiseAny promises =
     (if length promises = 0 then Some (Inl (Error ''No promises provided''))
      else settled (foldl (promiseAny_callback (length promises))
                      \<lparr>settled = None, rejectedCount = 0, errors = (\<lambda>_. None)\<rparr>
                      (settleOrder promises)))"

text \<open>
  \<^verbatim>\<open>executeHybrid\<close> starts one executor per enabled provider, each on a clone made
  by \<^verbatim>\<open>cloneTransaction\<close> (a throw of the clone leaves \<^verbatim>\<open>executeHybrid\<close>),
  and marks its result with the provider's name. The world returned is the one in which
  every started executor has run to its end.
\<close>

definition startJito ::
  "environment \<Rightarrow> ConfigManager \<Rightarrow> nat \<Rightarrow> string list
     \<Rightarrow> (nat \<times> ExecutionResult settlement) list \<Rightarrow> world
     \<Rightarrow> (exn + (nat \<times> ExecutionResult settlement) list) \<times> world" where
  "startJito env c a signers executors w =
     (if isJitoEnabled c then
        (case cloneTransaction env a w of
           (Inl e, w1) \<Rightarrow> (Inl e, w1)
         | (Inr tx, w1) \<Rightarrow>
             (case jito_executeTransaction c (jitoNet env) tx signers w1 of
                (result, w2) \<Rightarrow>
                  (Inr (executors @
                        [(jitoSettles env, Fulfilled (result\<lparr>provider := Some ''jito''\<rparr>))]), w2)))
      else (Inr executors, w))"

definition startBloxRoute ::
  "environment \<Rightarrow> ConfigManager \<Rightarrow> nat \<Rightarrow> string list
     \<Rightarrow> (nat \<times> ExecutionResult settlement) list \<Rightarrow> world
     \<Rightarrow> (exn + (nat \<times> ExecutionResult settlement) list) \<times> world" where
  "startBloxRoute env c a signers executors w =
     (if isBloxRouteEnabled c then
        (case cloneTransaction env a w of
           (Inl e, w1) \<Rightarrow> (Inl e, w1)
         | (Inr tx, w1) \<Rightarrow>
             (case bloxRoute_executeTransaction c (bloxRouteNet env) tx signers w1 of
                (result, w2) \<Rightarrow>
                  (Inr (executors @
                        [(bloxRouteSettles env,
                          Fulfilled (result\<lparr>provider := Some ''bloxroute''\<rparr>))]), w2)))
      else (Inr executors, w))"

definition startNozomi ::
  "environment \<Rightarrow> ConfigManager \<Rightarrow> nat \<Rightarrow> string list
     \<Rightarrow> (nat \<times> ExecutionResult settlement) list \<Rightarrow> world
     \<Rightarrow> (exn + (nat \<times> ExecutionResult settlement) list) \<times> world" where
  "startNozomi env c a signers executors w =
     (if isNozomiEnabled c then
        (case cloneTransaction env a w of
           (Inl e, w1) \<Rightarrow> (Inl e, w1)
         | (Inr tx, w1) \<Rightarrow>
             (case nozomi_executeTransaction env c (nozomiNet env) tx signers w1 of
                (result, w2) \<Rightarrow>
                  (Inr (executors @
                        [(nozomiSettles env, Fulfilled (result\<lparr>provider := Some ''nozomi''\<rparr>))]), w2)))
      else (Inr executors, w))"

text \<open>
  The \<^verbatim>\<open>try\<close> around \<^verbatim>\<open>promiseAny\<close> at the end of
  \<^verbatim>\<open>executeHybrid\<close>: the value the race resolves with is returned as it is, a
  rejection of the race runs the fallback.
\<close>

definition raceOrFallback ::
  "environment \<Rightarrow> ConfigManager \<Rightarrow> nat \<Rightarrow> string list
     \<Rightarrow> (nat \<times> ExecutionResult settlement) list \<Rightarrow> world
     \<Rightarrow> ((exn + ExecutionResult) \<times> world) option" where
  "raceOrFallback env c a signers executors w =
     (case promiseAny executors of
        None \<Rightarrow> None
      | Some (Inr result) \<Rightarrow> Some (Inr result, w)
      | Some (Inl err) \<Rightarrow>
          (case executeFallback env c a signers w of (r, w') \<Rightarrow> Some (Inr r, w')))"

definition executeHybrid ::
  "environment \<Rightarrow> ConfigManager \<Rightarrow> nat \<Rightarrow> string list \<Rightarrow> world
     \<Rightarrow> ((exn + ExecutionResult) \<times> world) option" where
  "executeHybrid env c a signers w =
     (case startJito env c a signers [] w of
        (Inl e, w1) \<Rightarrow> Some (Inl e, w1)
      | (Inr ex1, w1) \<Rightarrow>
         (case startBloxRoute env c a signers ex1 w1 of
            (Inl e, w2) \<Rightarrow> Some (Inl e, w2)
          | (Inr ex2, w2) \<Rightarrow>
             (case startNozomi env c a signers ex2 w2 of
                (Inl e, w3) \<Rightarrow> Some (Inl e, w3)
              | (Inr executors, w3) \<Rightarrow>
                 (if length executors = 0
                  then Some (Inl (Error ''No providers are enabled for hybrid execution''), w3)
                  else raceOrFallback env c a signers executors w3))))"

text \<open>\<^verbatim>\<open>String.prototype.toLowerCase\<close> on the ASCII letters.\<close>

definition toLowerCase :: "string \<Rightarrow> string" where
  "toLowerCase s =
     map (\<lambda>ch. case map_of (zip ''ABCDEFGHIJKLMNOPQRSTUVWXYZ'' ''abcdefghijklmnopqrstuvwxyz'') ch of
                 Some l \<Rightarrow> l | None \<Rightarrow> ch) s"

definition executeAuto ::
  "environment \<Rightarrow> ConfigManager \<Rightarrow> nat \<Rightarrow> string list \<Rightarrow> world
     \<Rightarrow> ((exn + ExecutionResult) \<times> world) option" where
  "executeAuto env c a signers w =
     (let enabledProviders = getEnabledProviders c
      in if length enabledProviders = 0 then
           (case executeFallback env c a signers w of (r, w') \<Rightarrow> Some (Inr r, w'))
         else if length enabledProviders = 1 then
           (let p = toLowerCase (enabledProviders ! 0)
            in if p = ''jito'' then
                 (case jito_executeTransaction c (jitoNet env) a signers w of
                    (r, w') \<Rightarrow> Some (Inr r, w'))
               else if p = ''bloxroute'' then
                 (case bloxRoute_executeTransaction c (bloxRouteNet env) a signers w of
                    (r, w') \<Rightarrow> Some (Inr r, w'))
               else if p = ''nozomi'' then
                 (case nozomi_executeTransaction env c (nozomiNet env) a signers w of
                    (r, w') \<Rightarrow> Some (Inr r, w'))
               else
                 (case executeFallback env c a signers w of (r, w') \<Rightarrow> Some (Inr r, w')))
         else executeHybrid env c a signers w)"

section \<open>TransactionExecutor: dispatch and the public entry point\<close>

fun executeWithStrategy ::
  "environment \<Rightarrow> ConfigManager \<Rightarrow> nat \<Rightarrow> string list \<Rightarrow> ExecutionStrategy \<Rightarrow> world
     \<Rightarrow> ((exn + ExecutionResult) \<times> world) option" where
  "executeWithStrategy env c a signers HYBRID w = executeHybrid env c a signers w"
| "executeWithStrategy env c a signers JITO_ONLY w =
     (if \<not> isJitoEnabled c then Some (Inl (Error ''Jito is not enabled or configured''), w)
      else case jito_executeTransaction c (jitoNet env) a signers w of
             (r, w') \<Rightarrow> Some (Inr r, w'))"
| "executeWithStrategy env c a signers BLOXROUTE_ONLY w =
     (if \<not> isBloxRouteEnabled c
      then Some (Inl (Error ''BloxRoute is not enabled or configured''), w)
      else case bloxRoute_executeTransaction c (bloxRouteNet env) a signers w of
             (r, w') \<Rightarrow> Some (Inr r, w'))"
| "executeWithStrategy env c a signers NOZOMI_ONLY w =
     (if \<not> isNozomiEnabled c then Some (Inl (Error ''Nozomi is not enabled or configured''), w)
      else case nozomi_executeTransaction env c (nozomiNet env) a signers w of
             (r, w') \<Rightarrow> Some (Inr r, w'))"
| "executeWithStrategy env c a signers FALLBACK w =
     (case executeFallback env c a signers w of (r, w') \<Rightarrow> Some (Inr r, w'))"
| "executeWithStrategy env c a signers AUTO w = executeAuto env c a signers w"

text \<open>
  The \<^verbatim>\<open>catch\<close> of \<^verbatim>\<open>executeTransaction\<close>: the failure result built from
  whatever was thrown.
\<close>

definition caughtResult :: "environment \<Rightarrow> ExecutionStrategy \<Rightarrow> exn \<Rightarrow> ExecutionResult" where
  "caughtResult env s e =
     \<lparr>success = False, signature = None, error = Some (errorMessage e), strategy = Some s,
      executionTime = Some (totalElapsed env), retryCount = None, provider = None\<rparr>"

text \<open>
  What \<^verbatim>\<open>executeTransaction\<close> does with the outcome of the dispatch inside its
  \<^verbatim>\<open>try\<close>: a successful result is returned with the strategy and the elapsed
  time; a result that is not a success is thrown as an \<^verbatim>\<open>ExecutorError\<close> and
  caught like every other throw.
\<close>

definition finishExecution ::
  "environment \<Rightarrow> ExecutionStrategy \<Rightarrow> exn + ExecutionResult \<Rightarrow> ExecutionResult" where
  "finishExecution env s outcome =
     (case outcome of
        Inr result \<Rightarrow>
          (if success result
           then result\<lparr>strategy := Some s, executionTime := Some (totalElapsed env)\<rparr>
           else caughtResult env s
                  (Error (or_default (error result) ''Transaction execution failed'')))
      | Inl e \<Rightarrow> caughtResult env s e)"

text \<open>
  \<^verbatim>\<open>executeTransaction\<close> on the transaction at address \<open>a\<close>. \<open>None\<close>: the
  call never returns; otherwise the result returned and the world it leaves.
\<close>

definition executeTransaction ::
  "environment \<Rightarrow> ConfigManager \<Rightarrow> nat \<Rightarrow> string list \<Rightarrow> world
     \<Rightarrow> (ExecutionResult \<times> world) option" where
  "executeTransaction env c a signers w =
     (let s = determineOptimalStrategy c
      in case executeWithStrategy env c a signers s w of
           None \<Rightarrow> None
         | Some (outcome, w') \<Rightarrow> Some (finishExecution env s outcome, w'))"

section \<open>Predicates used in the statements\<close>

text \<open>
  Two worlds agree on everything the fallback path records: the delays requested, the
  calls of \<^verbatim>\<open>executeFallback\<close> and the attempts it started.
\<close>

definition same_counters :: "world \<Rightarrow> world \<Rightarrow> bool" where
  "same_counters w w' =
     (delays w' = delays w \<and> fallbackCalls w' = fallbackCalls w \<and> rpcAttempts w' = rpcAttempts w)"

text \<open>
  The object at address \<open>a\<close> is the same in both worlds but for its signatures array
  (which \<^verbatim>\<open>serialize\<close> may rewrite), and the second world has allocated no
  less than the first.
\<close>

definition untouched :: "nat \<Rightarrow> world \<Rightarrow> world \<Rightarrow> bool" where
  "untouched a w w' =
     ((heap w' a)\<lparr>signatures := []\<rparr> = (heap w a)\<lparr>signatures := []\<rparr> \<and>
      nextAddr w \<le> nextAddr w')"

text \<open>The provider name on the result a raced promise is fulfilled with.\<close>

definition racedProvider :: "nat \<times> ExecutionResult settlement \<Rightarrow> string option" where
  "racedProvider p = (case snd p of Fulfilled r \<Rightarrow> provider r | Rejected e \<Rightarrow> None)"

section \<open>Sample inputs\<close>

text \<open>
  Concrete configurations, answers of the network and worlds, on which the theorems below
  are instantiated. \<open>cfgOf j b n m\<close> has working credentials and positive tips for the
  three providers, the use-flags \<open>j\<close>, \<open>b\<close>, \<open>n\<close> and \<open>maxRetries = m\<close>.
  \<open>netOk\<close> answers every call with success, \<open>netDown\<close> fails every call to the
  network, \<open>netRejected\<close> accepts everything but the submission of the transaction.
  \<open>envOf j b n r\<close> gives the three providers the answers \<open>j\<close>, \<open>b\<close>, \<open>n\<close> and fallback
  attempt \<open>i\<close> the answers \<open>r i\<close> (\<open>always net\<close>: the same answers at every attempt;
  \<open>retryOnce\<close>: the first attempt is rejected, the next ones succeed); Jito settles
  first (50), then BloxRoute (80), then Nozomi (120). \<open>signerKeys\<close> is the
  signatures array \<^verbatim>\<open>serialize\<close> compiles: one slot, for the fee payer.
  \<open>neverSerializes\<close> is a library that refuses to serialize the transaction.
\<close>

definition tx0 :: Transaction where
  "tx0 = \<lparr>instructions = [Instruction ''create''], recentBlockhash = Some ''stale'',
          lastValidBlockHeight = None, feePayer = Some ''wallet'', signatures = []\<rparr>"

definition w0 :: world where
  "w0 = \<lparr>heap = (\<lambda>_. tx0), nextAddr = 1, delays = [], fallbackCalls = 0, rpcAttempts = 0\<rparr>"

definition netOk :: network where
  "netOk = \<lparr>getLatestBlockhash = Inr (''blockhash'', 100), createTipTransaction = None,
            systemTransfer = None, signAndSerialize = Inr ''sig'', jitoEndpointReplies = [Inr 200],
            sendRawTransaction = Inr ''sig'', confirmTransaction = Inr None,
            axiosPost = Inr (Some ''sig'', None), randomIndex = 0, elapsed = 80\<rparr>"

definition netDown :: network where
  "netDown = \<lparr>getLatestBlockhash = Inl (Error ''rpc down''), createTipTransaction = None,
              systemTransfer = None, signAndSerialize = Inr ''sig'', jitoEndpointReplies = [Inl ''timeout''],
              sendRawTransaction = Inl (Error ''rpc down''),
              confirmTransaction = Inl (Error ''rpc down''),
              axiosPost = Inl (Error ''rpc down''), randomIndex = 0, elapsed = 50\<rparr>"

definition netRejected :: network where
  "netRejected = netOk\<lparr>sendRawTransaction := Inl (Error ''blockhash not found'')\<rparr>"

definition cfgOf :: "bool \<Rightarrow> bool \<Rightarrow> bool \<Rightarrow> int option \<Rightarrow> ConfigManager" where
  "cfgOf j b n m =
     \<lparr>executorConfig =
        \<lparr>useJito = j, useBloxRoute = b, useNozomi = n,
         jitoTipAmount = Finite (1 / 10000), bloxRouteFee = Finite (1 / 1000),
         nozomiTipAmount = Finite (1 / 10000), maxRetries = m\<rparr>,
      jitoConfig = \<lparr>JitoConfig.tipAmount = Finite (1 / 10000)\<rparr>,
      bloxRouteConfig = \<lparr>authHeader = ''auth'', fee = Finite (1 / 1000)\<rparr>,
      nozomiConfig = \<lparr>apiKey = ''key'', endpoint = ''https://nozomi/?c='',
                      tipAmount = Finite (1 / 10000)\<rparr>,
      wallet = ''wallet''\<rparr>"

definition signerKeys :: "Transaction \<Rightarrow> string list" where
  "signerKeys t = (case feePayer t of None \<Rightarrow> [] | Some p \<Rightarrow> [p])"

definition envOf :: "network \<Rightarrow> network \<Rightarrow> network \<Rightarrow> (nat \<Rightarrow> network) \<Rightarrow> environment" where
  "envOf j b n r =
     \<lparr>transactionFrom = Inr, compiledSignatures = signerKeys, jitoNet = j, bloxRouteNet = b, nozomiNet = n, rpcNet = r,
      jitoSettles = 50, bloxRouteSettles = 80, nozomiSettles = 120, totalElapsed = 200\<rparr>"

definition always :: "network \<Rightarrow> nat \<Rightarrow> network" where
  "always net i = net"

definition neverSerializes :: "Transaction \<Rightarrow> exn + Transaction" where
  "neverSerializes t = Inl (Error ''Transaction recentBlockhash required'')"

definition retryOnce :: "nat \<Rightarrow> network" where
  "retryOnce i = (if i = 0 then netRejected else netOk)"

lemmas config_defs =
  cfgOf_def isJitoEnabled_def isBloxRouteEnabled_def isNozomiEnabled_def
  getEnabledProviders_def determineOptimalStrategy_def effectiveMaxRetries_def
  MAX_RETRY_ATTEMPTS_def

lemmas run_defs =
  executeTransaction_def finishExecution_def caughtResult_def executeHybrid_def
  startJito_def startBloxRoute_def startNozomi_def raceOrFallback_def promiseAny_def
  settleOrder_def settle_def cloneTransaction_def jito_executeTransaction_def jito_try_def
  bloxRoute_executeTransaction_def bloxRoute_try_def nozomi_executeTransaction_def
  nozomi_try_def executeFallback_def fallback_try_def fallback_loop.simps providerFailure_def
  providerSuccess_def fallbackResult_def modify_def addInstruction_def
  submitToJitoEndpoints_def envOf_def netOk_def netDown_def netRejected_def retryOnce_def always_def
  signerKeys_def addTip_def
  neverSerializes_def
  w0_def tx0_def
  LAMPORTS_PER_SOL_def Let_def

section \<open>Properties of the provider checks and of strategy selection\<close>

lemma gt_zero_iff: "gt_zero x \<longleftrightarrow> (\<exists>r. x = Finite r \<and> 0 < r) \<or> x = PosInfinity"
  by (cases x) auto

lemma Jito_enabled_iff: "''Jito'' \<in> set (getEnabledProviders c) \<longleftrightarrow> isJitoEnabled c"
  by (simp add: getEnabledProviders_def)
lemma BloxRoute_enabled_iff: "''BloxRoute'' \<in> set (getEnabledProviders c) \<longleftrightarrow> isBloxRouteEnabled c"
  by (simp add: getEnabledProviders_def)
lemma Nozomi_enabled_iff: "''Nozomi'' \<in> set (getEnabledProviders c) \<longleftrightarrow> isNozomiEnabled c"
  by (simp add: getEnabledProviders_def)

lemma toLowerCase_names [simp]:
  "toLowerCase ''Jito'' = ''jito''" "toLowerCase ''BloxRoute'' = ''bloxroute''"
  "toLowerCase ''Nozomi'' = ''nozomi''"
  by (simp_all add: toLowerCase_def)

lemma startJito_raced:
  "startJito env c a signers ex w = (Inr ex', w') \<Longrightarrow>
     map racedProvider ex' =
       map racedProvider ex @ (if isJitoEnabled c then [Some ''jito''] else [])"
  by (auto simp: startJito_def racedProvider_def split: if_splits sum.splits prod.splits)

lemma startBloxRoute_raced:
  "startBloxRoute env c a signers ex w = (Inr ex', w') \<Longrightarrow>
     map racedProvider ex' =
       map racedProvider ex @ (if isBloxRouteEnabled c then [Some ''bloxroute''] else [])"
  by (auto simp: startBloxRoute_def racedProvider_def split: if_splits sum.splits prod.splits)

lemma startNozomi_raced:
  "startNozomi env c a signers ex w = (Inr ex', w') \<Longrightarrow>
     map racedProvider ex' =
       map racedProvider ex @ (if isNozomiEnabled c then [Some ''nozomi''] else [])"
  by (auto simp: startNozomi_def racedProvider_def split: if_splits sum.splits prod.splits)

lemma hybrid_races_enabled_providers:
  assumes "startJito env c a signers [] w = (Inr ex1, w1)"
    "startBloxRoute env c a signers ex1 w1 = (Inr ex2, w2)"
    "startNozomi env c a signers ex2 w2 = (Inr executors, w3)"
  shows "map racedProvider executors = map (\<lambda>n. Some (toLowerCase n)) (getEnabledProviders c)"
  using startJito_raced[OF assms(1)] startBloxRoute_raced[OF assms(2)]
    startNozomi_raced[OF assms(3)]
  by (simp add: getEnabledProviders_def)

text \<open>
  Claim C10. A provider is among the enabled providers exactly when its use-flag is set,
  its tip or fee is strictly positive and, for BloxRoute and Nozomi, its credential is not
  the empty string. In particular an empty credential keeps BloxRoute or Nozomi out
  whatever the flag says, and a tip or fee that is zero or negative keeps any provider out.
  The promises \<^verbatim>\<open>executeHybrid\<close> races are those of the enabled providers, in
  that order.
\<close>

theorem C10_enabled_providers:
  "(''Jito'' \<in> set (getEnabledProviders c) \<longleftrightarrow>
      useJito (executorConfig c) \<and> gt_zero (JitoConfig.tipAmount (jitoConfig c))) \<and>
   (''BloxRoute'' \<in> set (getEnabledProviders c) \<longleftrightarrow>
      useBloxRoute (executorConfig c) \<and> authHeader (bloxRouteConfig c) \<noteq> [] \<and>
      gt_zero (fee (bloxRouteConfig c))) \<and>
   (''Nozomi'' \<in> set (getEnabledProviders c) \<longleftrightarrow>
      useNozomi (executorConfig c) \<and> apiKey (nozomiConfig c) \<noteq> [] \<and>
      gt_zero (NozomiConfig.tipAmount (nozomiConfig c))) \<and>
   (authHeader (bloxRouteConfig c) = [] \<longrightarrow> ''BloxRoute'' \<notin> set (getEnabledProviders c)) \<and>
   (apiKey (nozomiConfig c) = [] \<longrightarrow> ''Nozomi'' \<notin> set (getEnabledProviders c)) \<and>
   (\<forall>r. r \<le> 0 \<longrightarrow>
      (JitoConfig.tipAmount (jitoConfig c) = Finite r \<longrightarrow> ''Jito'' \<notin> set (getEnabledProviders c)) \<and>
      (fee (bloxRouteConfig c) = Finite r \<longrightarrow> ''BloxRoute'' \<notin> set (getEnabledProviders c)) \<and>
      (NozomiConfig.tipAmount (nozomiConfig c) = Finite r \<longrightarrow>
         ''Nozomi'' \<notin> set (getEnabledProviders c))) \<and>
   (\<forall>ex1 w1 ex2 w2 executors w3.
      startJito env c a signers [] w = (Inr ex1, w1) \<longrightarrow>
      startBloxRoute env c a signers ex1 w1 = (Inr ex2, w2) \<longrightarrow>
      startNozomi env c a signers ex2 w2 = (Inr executors, w3) \<longrightarrow>
      map racedProvider executors = map (\<lambda>n. Some (toLowerCase n)) (getEnabledProviders c))"
proof -
  have enabled:
    "(''Jito'' \<in> set (getEnabledProviders c) \<longleftrightarrow>
        useJito (executorConfig c) \<and> gt_zero (JitoConfig.tipAmount (jitoConfig c))) \<and>
     (''BloxRoute'' \<in> set (getEnabledProviders c) \<longleftrightarrow>
        useBloxRoute (executorConfig c) \<and> authHeader (bloxRouteConfig c) \<noteq> [] \<and>
        gt_zero (fee (bloxRouteConfig c))) \<and>
     (''Nozomi'' \<in> set (getEnabledProviders c) \<longleftrightarrow>
        useNozomi (executorConfig c) \<and> apiKey (nozomiConfig c) \<noteq> [] \<and>
        gt_zero (NozomiConfig.tipAmount (nozomiConfig c)))"
    by (simp add: Jito_enabled_iff BloxRoute_enabled_iff Nozomi_enabled_iff
          isJitoEnabled_def isBloxRouteEnabled_def isNozomiEnabled_def)
  then have excluded:
    "(authHeader (bloxRouteConfig c) = [] \<longrightarrow> ''BloxRoute'' \<notin> set (getEnabledProviders c)) \<and>
     (apiKey (nozomiConfig c) = [] \<longrightarrow> ''Nozomi'' \<notin> set (getEnabledProviders c)) \<and>
     (\<forall>r. r \<le> 0 \<longrightarrow>
        (JitoConfig.tipAmount (jitoConfig c) = Finite r \<longrightarrow>
           ''Jito'' \<notin> set (getEnabledProviders c)) \<and>
        (fee (bloxRouteConfig c) = Finite r \<longrightarrow> ''BloxRoute'' \<notin> set (getEnabledProviders c)) \<and>
        (NozomiConfig.tipAmount (nozomiConfig c) = Finite r \<longrightarrow>
           ''Nozomi'' \<notin> set (getEnabledProviders c)))"
    by auto
  from enabled excluded hybrid_races_enabled_providers[of env c a signers w] show ?thesis
    by blast
qed

theorem C10_enabled_providers_witness:
  "useBloxRoute (executorConfig
      ((cfgOf True True True None)\<lparr>bloxRouteConfig := \<lparr>authHeader = [], fee = Finite 1\<rparr>,
                                   jitoConfig := \<lparr>JitoConfig.tipAmount = Finite 0\<rparr>\<rparr>)) \<and>
   getEnabledProviders
      ((cfgOf True True True None)\<lparr>bloxRouteConfig := \<lparr>authHeader = [], fee = Finite 1\<rparr>,
                                   jitoConfig := \<lparr>JitoConfig.tipAmount = Finite 0\<rparr>\<rparr>) = [''Nozomi''] \<and>
   map racedProvider
     (projr (fst (startNozomi (envOf netOk netOk netOk (always netOk))
        ((cfgOf True True True None)\<lparr>bloxRouteConfig := \<lparr>authHeader = [], fee = Finite 1\<rparr>,
                                     jitoConfig := \<lparr>JitoConfig.tipAmount = Finite 0\<rparr>\<rparr>)
        0 [''payer''] [] w0))) = [Some ''nozomi'']"
proof -
  let ?c = "(cfgOf True True True None)\<lparr>bloxRouteConfig := \<lparr>authHeader = [], fee = Finite 1\<rparr>,
                                         jitoConfig := \<lparr>JitoConfig.tipAmount = Finite 0\<rparr>\<rparr>"
  let ?env = "envOf netOk netOk netOk (always netOk)"
  let ?n = "startNozomi ?env ?c 0 [''payer''] [] w0"
  have flag: "useBloxRoute (executorConfig ?c)" "authHeader (bloxRouteConfig ?c) = []"
    "JitoConfig.tipAmount (jitoConfig ?c) = Finite 0"
    "getEnabledProviders ?c = [''Nozomi'']"
    by (simp_all add: config_defs)
  have j: "startJito ?env ?c 0 [''payer''] [] w0 = (Inr [], w0)"
    and b: "startBloxRoute ?env ?c 0 [''payer''] [] w0 = (Inr [], w0)"
    by (simp_all add: startJito_def startBloxRoute_def config_defs)
  have n: "?n = (Inr (projr (fst ?n)), snd ?n)"
    by (simp add: config_defs run_defs)
  from C10_enabled_providers[of ?c ?env 0 "[''payer'']" w0] flag j b n
  have "map racedProvider (projr (fst ?n)) = map (\<lambda>n. Some (toLowerCase n)) [''Nozomi'']"
    by metis
  with flag show ?thesis by simp
qed

lemma getEnabledProviders_length:
  "length (getEnabledProviders c) =
     (if isJitoEnabled c then 1 else 0) + (if isBloxRouteEnabled c then 1 else 0) +
     (if isNozomiEnabled c then 1 else 0)"
  by (simp add: getEnabledProviders_def)

text \<open>
  Claim C5. Strategy selection depends on the list of enabled providers only: none gives
  the fallback strategy, exactly one gives that provider's own strategy, two or more give
  the hybrid strategy, and two configurations with the same enabled providers get the same
  strategy.
\<close>

theorem C5_strategy_selection:
  "(length (getEnabledProviders c) = 0 \<longrightarrow> determineOptimalStrategy c = FALLBACK) \<and>
   (length (getEnabledProviders c) = 1 \<longrightarrow>
      (getEnabledProviders c = [''Jito''] \<and> determineOptimalStrategy c = JITO_ONLY) \<or>
      (getEnabledProviders c = [''BloxRoute''] \<and> determineOptimalStrategy c = BLOXROUTE_ONLY) \<or>
      (getEnabledProviders c = [''Nozomi''] \<and> determineOptimalStrategy c = NOZOMI_ONLY)) \<and>
   (2 \<le> length (getEnabledProviders c) \<longrightarrow> determineOptimalStrategy c = HYBRID) \<and>
   (getEnabledProviders c = getEnabledProviders c' \<longrightarrow>
      determineOptimalStrategy c = determineOptimalStrategy c')"
proof -
  have sel: "determineOptimalStrategy k =
      (if 1 < length (getEnabledProviders k) then HYBRID
       else if ''Jito'' \<in> set (getEnabledProviders k) then JITO_ONLY
       else if ''BloxRoute'' \<in> set (getEnabledProviders k) then BLOXROUTE_ONLY
       else if ''Nozomi'' \<in> set (getEnabledProviders k) then NOZOMI_ONLY
       else FALLBACK)" for k
    by (simp add: determineOptimalStrategy_def Jito_enabled_iff BloxRoute_enabled_iff
          Nozomi_enabled_iff)
  have one: "length (getEnabledProviders c) = 1 \<Longrightarrow>
      getEnabledProviders c = [''Jito''] \<or> getEnabledProviders c = [''BloxRoute''] \<or>
      getEnabledProviders c = [''Nozomi'']"
    by (simp add: getEnabledProviders_def split: if_splits)
  show ?thesis
    using one by (auto simp: sel)
qed
theorem C5_strategy_selection_witness:
  "determineOptimalStrategy (cfgOf False False False None) = FALLBACK \<and>
   determineOptimalStrategy (cfgOf False True False None) = BLOXROUTE_ONLY \<and>
   determineOptimalStrategy (cfgOf True False True None) = HYBRID \<and>
   determineOptimalStrategy (cfgOf True False True None) =
     determineOptimalStrategy (cfgOf True False True (Some 5))"
  using C5_strategy_selection[of "cfgOf False False False None" "cfgOf False False False None"]
        C5_strategy_selection[of "cfgOf False True False None" "cfgOf False True False None"]
        C5_strategy_selection[of "cfgOf True False True None" "cfgOf True False True (Some 5)"]
  by (simp add: config_defs)

section \<open>The direct fallback path: attempts, retry count and backoff\<close>

lemma modify_counters [simp]:
  "delays (modify a f w) = delays w" "fallbackCalls (modify a f w) = fallbackCalls w"
  "rpcAttempts (modify a f w) = rpcAttempts w" "nextAddr (modify a f w) = nextAddr w"
  by (simp_all add: modify_def)

lemma cloneTransaction_counters:
  "cloneTransaction env a w = (x, w') \<Longrightarrow>
     delays w' = delays w \<and> fallbackCalls w' = fallbackCalls w \<and> rpcAttempts w' = rpcAttempts w"
  by (auto simp: cloneTransaction_def Let_def split: sum.splits)

lemma addTip_counters:
  "addTip net a i tip w = Inr w' \<Longrightarrow>
     delays w' = delays w \<and> fallbackCalls w' = fallbackCalls w \<and> rpcAttempts w' = rpcAttempts w"
  by (auto simp: addTip_def split: if_splits option.splits)

lemma fallback_try_counters:
  "fallback_try env c net a signers w = (x, w') \<Longrightarrow>
     delays w' = delays w \<and> fallbackCalls w' = fallbackCalls w \<and> rpcAttempts w' = rpcAttempts w"
  by (auto simp: fallback_try_def Let_def dest!: cloneTransaction_counters
        split: sum.splits option.splits prod.splits)

lemma fallback_loop_trace:
  "fallback_loop env c a signers m r w = (res, w') \<Longrightarrow>
   \<exists>k. rpcAttempts w' = rpcAttempts w + k \<and>
       fallbackCalls w' = fallbackCalls w \<and>
       delays w' = delays w @ map (\<lambda>j. 1000 * j) [Suc r ..< r + k] \<and>
       (if int r < m
        then 1 \<le> k \<and> int (r + k) \<le> m \<and>
             (if success res then retryCount res = Some (r + k - 1)
              else int (r + k) = m \<and> retryCount res = Some (r + k))
        else k = 0 \<and> \<not> success res \<and> retryCount res = Some r)"
proof (induction env c a signers m r w arbitrary: res w' rule: fallback_loop.induct)
  case (1 env c a signers m r w)
  note step = fallback_loop.simps[of env c a signers m r w]
  show ?case
  proof (cases "int r < m")
    case False
    with "1.prems" show ?thesis
      by (auto simp: step fallbackResult_def)
  next
    case True
    obtain x w1 where try1:
      "fallback_try env c (rpcNet env r) a signers (w\<lparr>rpcAttempts := Suc (rpcAttempts w)\<rparr>) = (x, w1)"
      by (cases "fallback_try env c (rpcNet env r) a signers (w\<lparr>rpcAttempts := Suc (rpcAttempts w)\<rparr>)")
    from fallback_try_counters[OF try1]
    have w1: "delays w1 = delays w" "fallbackCalls w1 = fallbackCalls w"
      "rpcAttempts w1 = Suc (rpcAttempts w)"
      by simp_all
    show ?thesis
    proof (cases x)
      case (Inr sig)
      with True try1 "1.prems" have "res = fallbackResult True (Some sig) None r" "w' = w1"
        by (simp_all add: step)
      with True w1 show ?thesis
        by (intro exI[of _ 1]) (simp add: fallbackResult_def)
    next
      case (Inl e)
      show ?thesis
      proof (cases "m \<le> int (Suc r)")
        case last: True
        with True Inl try1 "1.prems"
        have "res = fallbackResult False None
                 (Some (''Fallback execution failed: '' @ errorMessage e)) (Suc r)" "w' = w1"
          by (simp_all add: step)
        with True last w1 show ?thesis
          by (intro exI[of _ 1]) (simp add: fallbackResult_def)
      next
        case more: False
        let ?w2 = "w1\<lparr>delays := delays w1 @ [1000 * Suc r]\<rparr>"
        from True Inl try1 more "1.prems"
        have rec: "fallback_loop env c a signers m (Suc r) ?w2 = (res, w')"
          by (simp add: step)
        have lt: "int (Suc r) < m" using more by simp
        from "1.IH"[OF True try1[symmetric] Inl more rec]
        obtain k where k0: "rpcAttempts w' = rpcAttempts ?w2 + k \<and>
          fallbackCalls w' = fallbackCalls ?w2 \<and>
          delays w' = delays ?w2 @ map (\<lambda>j. 1000 * j) [Suc (Suc r) ..< Suc r + k] \<and>
          1 \<le> k \<and> int (Suc r + k) \<le> m \<and>
          (if success res then retryCount res = Some (Suc r + k - 1)
           else int (Suc r + k) = m \<and> retryCount res = Some (Suc r + k))"
          unfolding if_P[OF lt] by blast
        then have k: "rpcAttempts w' = rpcAttempts ?w2 + k"
          "fallbackCalls w' = fallbackCalls ?w2"
          "delays w' = delays ?w2 @ map (\<lambda>j. 1000 * j) [Suc (Suc r) ..< Suc r + k]"
          "1 \<le> k" "int (Suc r + k) \<le> m"
          "if success res then retryCount res = Some (Suc r + k - 1)
           else int (Suc r + k) = m \<and> retryCount res = Some (Suc r + k)"
          by blast+
        have range: "[Suc r ..< r + Suc k] = Suc r # [Suc (Suc r) ..< Suc r + k]"
          using k(4) by (simp add: upt_conv_Cons)
        show ?thesis
          using True k w1 range by (intro exI[of _ "Suc k"]) (auto split: if_splits)
      qed
    qed
  qed
qed

lemma executeFallback_trace:
  assumes "executeFallback env c a signers w = (res, w')"
  shows "\<exists>k. rpcAttempts w' = rpcAttempts w + k \<and>
       fallbackCalls w' = Suc (fallbackCalls w) \<and>
       delays w' = delays w @ map (\<lambda>j. 1000 * j) [1 ..< k] \<and>
       (if 0 < effectiveMaxRetries c
        then 1 \<le> k \<and> int k \<le> effectiveMaxRetries c \<and>
             (if success res then retryCount res = Some (k - 1)
              else int k = effectiveMaxRetries c \<and> retryCount res = Some k)
        else k = 0 \<and> \<not> success res \<and> retryCount res = Some 0)"
proof -
  let ?w = "w\<lparr>fallbackCalls := Suc (fallbackCalls w)\<rparr>"
  let ?m = "effectiveMaxRetries c"
  have run: "fallback_loop env c a signers ?m 0 ?w = (res, w')"
    using assms by (simp add: executeFallback_def)
  from fallback_loop_trace[OF run] obtain k where
    k: "rpcAttempts w' = rpcAttempts ?w + k \<and>
       fallbackCalls w' = fallbackCalls ?w \<and>
       delays w' = delays ?w @ map (\<lambda>j. 1000 * j) [Suc 0 ..< 0 + k] \<and>
       (if int 0 < ?m
        then 1 \<le> k \<and> int (0 + k) \<le> ?m \<and>
             (if success res then retryCount res = Some (0 + k - 1)
              else int (0 + k) = ?m \<and> retryCount res = Some (0 + k))
        else k = 0 \<and> \<not> success res \<and> retryCount res = Some 0)"
    by blast
  show ?thesis
    by (rule exI[of _ k]) (use k in \<open>auto split: if_splits\<close>)
qed



text \<open>
  Claim C4, as amended. The delays requested by a run that made \<open>n\<close> attempts are
  \<open>1000 * 1, ..., 1000 * (n - 1)\<close>: the delay before attempt \<open>k + 1\<close> is \<open>1000 * k\<close>, no
  delay precedes the first attempt and none follows the last. With three attempts that all
  fail the delays are 1000 and 2000.
\<close>

theorem C4_backoff_delays:
  assumes "executeFallback env c a signers w = (res, w')"
  shows "\<exists>n. rpcAttempts w' = rpcAttempts w + n \<and>
     delays w' = delays w @ map (\<lambda>k. 1000 * k) [1 ..< n] \<and>
     (\<not> success res \<and> effectiveMaxRetries c = 3 \<longrightarrow>
        n = 3 \<and> delays w' = delays w @ [1000, 2000])"
proof -
  from executeFallback_trace[OF assms] obtain k where k:
    "rpcAttempts w' = rpcAttempts w + k"
    "delays w' = delays w @ map (\<lambda>j. 1000 * j) [1 ..< k]"
    "if 0 < effectiveMaxRetries c
        then 1 \<le> k \<and> int k \<le> effectiveMaxRetries c \<and>
             (if success res then retryCount res = Some (k - 1)
              else int k = effectiveMaxRetries c \<and> retryCount res = Some k)
        else k = 0 \<and> \<not> success res \<and> retryCount res = Some 0"
    by blast
  have "k = 3 \<Longrightarrow> map (\<lambda>j. 1000 * j) [1 ..< k] = [1000, 2000::nat]"
    by (simp add: upt_rec)
  with k show ?thesis
    by (intro exI[of _ k]) (auto split: if_splits)
qed

theorem C4_backoff_delays_witness:
  "delays (snd (executeFallback (envOf netDown netDown netDown (always netDown))
                   (cfgOf False False False (Some 3)) 0 [''payer''] w0)) = [1000, 2000] \<and>
   rpcAttempts (snd (executeFallback (envOf netDown netDown netDown (always netDown))
                   (cfgOf False False False (Some 3)) 0 [''payer''] w0)) = 3"
proof -
  let ?run = "executeFallback (envOf netDown netDown netDown (always netDown))
                   (cfgOf False False False (Some 3)) 0 [''payer''] w0"
  have bad: "\<not> success (fst ?run)"
    by (simp add: config_defs run_defs)
  have m: "effectiveMaxRetries (cfgOf False False False (Some 3)) = 3"
    by (simp add: config_defs)
  have "?run = (fst ?run, snd ?run)" by simp
  from C4_backoff_delays[OF this] bad m show ?thesis
    by (auto simp: w0_def)
qed

text \<open>
  Claim C4 as stated fails: with \<open>maxRetries = 3\<close> and three failed attempts the requested
  backoff adds up to 3000 ms, not to 1000 + 2000 + 3000.
\<close>

theorem C4_total_backoff_counterexample:
  "\<not> success (fst (executeFallback (envOf netDown netDown netDown (always netDown))
                   (cfgOf False False False (Some 3)) 0 [''payer''] w0)) \<and>
   rpcAttempts (snd (executeFallback (envOf netDown netDown netDown (always netDown))
                   (cfgOf False False False (Some 3)) 0 [''payer''] w0)) = 3 \<and>
   sum_list (delays (snd (executeFallback (envOf netDown netDown netDown (always netDown))
                   (cfgOf False False False (Some 3)) 0 [''payer''] w0))) = 3000 \<and>
   sum_list (delays (snd (executeFallback (envOf netDown netDown netDown (always netDown))
                   (cfgOf False False False (Some 3)) 0 [''payer''] w0))) \<noteq> 1000 + 2000 + 3000"
  by (simp add: config_defs run_defs)

section \<open>The race: \<open>promiseAny\<close> always settles\<close>

lemma settled_settle: "settled (settle x st) = (case settled st of None \<Rightarrow> Some x | Some y \<Rightarrow> Some y)"
  by (simp add: settle_def split: option.splits)

lemma rejectedCount_settle [simp]: "rejectedCount (settle x st) = rejectedCount st"
  by (simp add: settle_def split: option.splits)

lemma callback_keeps:
  "settled st = Some x \<Longrightarrow> settled (promiseAny_callback n st ev) = Some x"
  by (cases ev; cases "snd ev") (auto simp: settled_settle Let_def)

lemma foldl_callback_keeps:
  "settled st = Some x \<Longrightarrow> settled (foldl (promiseAny_callback n) st evs) = Some x"
  by (induction evs arbitrary: st) (simp_all add: callback_keeps)


lemma length_settleOrder [simp]: "length (settleOrder ps) = length ps"
  by (simp add: settleOrder_def)

lemma settleOrder_Nil [simp]: "settleOrder ps = [] \<longleftrightarrow> ps = []"
  by (metis length_0_conv length_settleOrder)


lemma promiseAny_first_fulfilled:
  assumes "settleOrder ps = (i, Fulfilled v) # rest"
  shows "promiseAny ps = Some (Inr v)"
proof -
  have "settleOrder ps \<noteq> []" using assms by simp
  then have "length ps \<noteq> 0" by simp
  then show ?thesis
    by (simp add: promiseAny_def assms settled_settle foldl_callback_keeps)
qed

lemma foldl_callback_all_rejected:
  "settled st = None \<Longrightarrow> rejectedCount st + length evs = n \<Longrightarrow> evs \<noteq> [] \<Longrightarrow>
   (\<forall>ev \<in> set evs. \<exists>e. snd ev = Rejected e) \<Longrightarrow>
   settled (foldl (promiseAny_callback n) st evs) = Some (Inl (Error ''All promises rejected''))"
proof (induction evs arbitrary: st)
  case Nil
  then show ?case by simp
next
  case (Cons ev evs)
  obtain i e where ev: "ev = (i, Rejected e)"
    using Cons.prems(4) by (cases ev) auto
  show ?case
  proof (cases "evs = []")
    case True
    with Cons.prems ev show ?thesis by (simp add: settled_settle Let_def)
  next
    case False
    let ?st = "promiseAny_callback n st ev"
    have "settled ?st = None" "rejectedCount ?st + length evs = n"
      using Cons.prems ev False by (auto simp: Let_def)
    from Cons.IH[OF this False] Cons.prems(4) show ?thesis by simp
  qed
qed

lemma settleOrder_settlements: "snd ` set (settleOrder ps) = snd ` set ps"
proof -
  have "snd ` set (settleOrder ps) = (snd \<circ> snd) ` set (enumerate 0 ps)"
    by (force simp: settleOrder_def)
  also have "\<dots> = snd ` (snd ` set (enumerate 0 ps))"
    by (simp only: image_comp)
  also have "snd ` set (enumerate 0 ps) = set (map snd (enumerate 0 ps))"
    by (simp only: set_map)
  also have "map snd (enumerate 0 ps) = ps"
    by simp
  finally show ?thesis .
qed

lemma promiseAny_all_rejected:
  assumes "ps \<noteq> []" "\<forall>p \<in> set ps. \<exists>e. snd p = Rejected e"
  shows "promiseAny ps = Some (Inl (Error ''All promises rejected''))"
proof -
  have "\<forall>ev \<in> set (settleOrder ps). \<exists>e. snd ev = Rejected e"
  proof
    fix ev assume "ev \<in> set (settleOrder ps)"
    then have "snd ev \<in> snd ` set ps" using settleOrder_settlements[of ps] by blast
    with assms(2) show "\<exists>e. snd ev = Rejected e" by auto
  qed
  moreover have "settleOrder ps \<noteq> []" using assms(1) by simp
  ultimately show ?thesis
    using assms(1) by (simp add: promiseAny_def foldl_callback_all_rejected)
qed





lemma finishExecution_strategy [simp]: "strategy (finishExecution env s x) = Some s"
  by (simp add: finishExecution_def caughtResult_def split: sum.splits)

lemma finishExecution_error: "success (finishExecution env s x) \<or> error (finishExecution env s x) \<noteq> None"
  by (simp add: finishExecution_def caughtResult_def split: sum.splits)

section \<open>Single-provider strategies\<close>

lemma or_default_nonempty: "d \<noteq> [] \<Longrightarrow> or_default x d \<noteq> []"
  by (cases x) auto

lemma or_default_Some: "m \<noteq> [] \<Longrightarrow> or_default (Some m) d = m"
  by simp

lemma jito_try_counters: "jito_try c net a signers w = (x, w') \<Longrightarrow> same_counters w w'"
  by (auto simp: jito_try_def same_counters_def Let_def split: sum.splits option.splits prod.splits bool.splits)

lemma jito_counters: "jito_executeTransaction c net a signers w = (r, w') \<Longrightarrow> same_counters w w'"
  by (auto simp: jito_executeTransaction_def dest: jito_try_counters split: sum.splits prod.splits)

lemma jito_try_failure:
  "jito_try c net a signers w = (Inr r, w') \<Longrightarrow> \<not> success r \<Longrightarrow> \<exists>m. error r = Some m \<and> m \<noteq> []"
  by (auto simp: jito_try_def Let_def providerFailure_def providerSuccess_def or_default_nonempty
        split: sum.splits option.splits prod.splits bool.splits)

lemma jito_failure:
  "jito_executeTransaction c net a signers w = (r, w') \<Longrightarrow> \<not> success r \<Longrightarrow>
     \<exists>m. error r = Some m \<and> m \<noteq> []"
  by (auto simp: jito_executeTransaction_def providerFailure_def dest: jito_try_failure
        split: sum.splits prod.splits)

lemma bloxRoute_try_counters: "bloxRoute_try c net a signers w = (x, w') \<Longrightarrow> same_counters w w'"
  by (auto simp: bloxRoute_try_def same_counters_def Let_def dest!: addTip_counters
        split: sum.splits option.splits prod.splits if_splits)

lemma bloxRoute_counters:
  "bloxRoute_executeTransaction c net a signers w = (r, w') \<Longrightarrow> same_counters w w'"
  by (auto simp: bloxRoute_executeTransaction_def dest: bloxRoute_try_counters split: sum.splits prod.splits)

lemma bloxRoute_try_failure:
  "bloxRoute_try c net a signers w = (Inr r, w') \<Longrightarrow> \<not> success r \<Longrightarrow> \<exists>m. error r = Some m \<and> m \<noteq> []"
  by (auto simp: bloxRoute_try_def Let_def providerFailure_def providerSuccess_def
        split: sum.splits option.splits prod.splits if_splits)

lemma bloxRoute_failure:
  "bloxRoute_executeTransaction c net a signers w = (r, w') \<Longrightarrow> \<not> success r \<Longrightarrow>
     \<exists>m. error r = Some m \<and> m \<noteq> []"
  by (auto simp: bloxRoute_executeTransaction_def providerFailure_def dest: bloxRoute_try_failure
        split: sum.splits prod.splits)

lemma nozomi_try_counters: "nozomi_try env c net a signers w = (x, w') \<Longrightarrow> same_counters w w'"
  by (auto simp: nozomi_try_def same_counters_def Let_def
        dest!: cloneTransaction_counters addTip_counters
        split: sum.splits option.splits prod.splits if_splits)

lemma nozomi_counters:
  "nozomi_executeTransaction env c net a signers w = (r, w') \<Longrightarrow> same_counters w w'"
  by (auto simp: nozomi_executeTransaction_def dest: nozomi_try_counters split: sum.splits prod.splits)

lemma nozomi_try_failure:
  "nozomi_try env c net a signers w = (Inr r, w') \<Longrightarrow> \<not> success r \<Longrightarrow> \<exists>m. error r = Some m \<and> m \<noteq> []"
  by (auto simp: nozomi_try_def Let_def providerFailure_def providerSuccess_def
        split: sum.splits option.splits prod.splits if_splits)

lemma nozomi_failure:
  "nozomi_executeTransaction env c net a signers w = (r, w') \<Longrightarrow> \<not> success r \<Longrightarrow>
     \<exists>m. error r = Some m \<and> m \<noteq> []"
  by (auto simp: nozomi_executeTransaction_def providerFailure_def dest: nozomi_try_failure
        split: sum.splits prod.splits)

lemma single_provider_cases:
  assumes "length (getEnabledProviders c) = 1"
  shows "(isJitoEnabled c \<and> \<not> isBloxRouteEnabled c \<and> \<not> isNozomiEnabled c \<and>
            determineOptimalStrategy c = JITO_ONLY) \<or>
         (\<not> isJitoEnabled c \<and> isBloxRouteEnabled c \<and> \<not> isNozomiEnabled c \<and>
            determineOptimalStrategy c = BLOXROUTE_ONLY) \<or>
         (\<not> isJitoEnabled c \<and> \<not> isBloxRouteEnabled c \<and> isNozomiEnabled c \<and>
            determineOptimalStrategy c = NOZOMI_ONLY)"
  using assms
  by (auto simp: getEnabledProviders_length determineOptimalStrategy_def split: if_splits)

lemma finishExecution_failure:
  assumes "\<not> success cr" "error cr = Some m" "m \<noteq> []"
  shows "finishExecution env s (Inr cr) =
           \<lparr>success = False, signature = None, error = error cr, strategy = Some s,
            executionTime = Some (totalElapsed env), retryCount = None, provider = None\<rparr>"
  using assms by (simp add: finishExecution_def caughtResult_def)

text \<open>
  Claim C7. With exactly one provider enabled, \<^verbatim>\<open>executeTransaction\<close> runs that
  provider's executor on the transaction and nothing else: the fallback is not called, no
  attempt of it is started and no delay is requested. When the provider's result is a
  failure, the result returned is a failure with the provider's error string and the
  provider's strategy (the provider's name and elapsed time are not copied).
\<close>

theorem C7_single_channel_no_fallback:
  assumes "length (getEnabledProviders c) = 1"
  shows "\<exists>cr w'.
     (if isJitoEnabled c then jito_executeTransaction c (jitoNet env) a signers w
      else if isBloxRouteEnabled c then bloxRoute_executeTransaction c (bloxRouteNet env) a signers w
      else nozomi_executeTransaction env c (nozomiNet env) a signers w) = (cr, w') \<and>
     executeTransaction env c a signers w =
       Some (finishExecution env (determineOptimalStrategy c) (Inr cr), w') \<and>
     fallbackCalls w' = fallbackCalls w \<and> rpcAttempts w' = rpcAttempts w \<and>
     delays w' = delays w \<and>
     (\<not> success cr \<longrightarrow>
        error cr \<noteq> None \<and>
        finishExecution env (determineOptimalStrategy c) (Inr cr) =
          \<lparr>success = False, signature = None, error = error cr,
           strategy = Some (determineOptimalStrategy c),
           executionTime = Some (totalElapsed env), retryCount = None, provider = None\<rparr>)"
proof -
  let ?run = "if isJitoEnabled c then jito_executeTransaction c (jitoNet env) a signers w
      else if isBloxRouteEnabled c then bloxRoute_executeTransaction c (bloxRouteNet env) a signers w
      else nozomi_executeTransaction env c (nozomiNet env) a signers w"
  obtain cr w' where run: "?run = (cr, w')" by (cases ?run)
  from single_provider_cases[OF assms]
  have disp: "executeWithStrategy env c a signers (determineOptimalStrategy c) w = Some (Inr cr, w')"
    using run by (auto split: if_splits)
  have cnt: "same_counters w w'"
    using run by (auto split: if_splits dest: jito_counters bloxRoute_counters nozomi_counters)
  have err: "\<exists>m. error cr = Some m \<and> m \<noteq> []" if "\<not> success cr"
    using run that by (auto split: if_splits dest: jito_failure bloxRoute_failure nozomi_failure)
  have fin: "finishExecution env (determineOptimalStrategy c) (Inr cr) =
          \<lparr>success = False, signature = None, error = error cr,
           strategy = Some (determineOptimalStrategy c),
           executionTime = Some (totalElapsed env), retryCount = None, provider = None\<rparr>"
    if "\<not> success cr"
    using err[OF that] that by (auto intro: finishExecution_failure)
  show ?thesis
    using run disp cnt err fin
    by (intro exI[of _ cr] exI[of _ w']) (auto simp: executeTransaction_def same_counters_def)
qed

theorem C7_single_channel_no_fallback_witness:
  "executeTransaction (envOf netOk netRejected netOk (always netOk))
      (cfgOf False True False None) 0 [''payer''] w0 =
   Some (\<lparr>success = False, signature = None,
          error = Some ''BloxRoute execution failed: blockhash not found'',
          strategy = Some BLOXROUTE_ONLY, executionTime = Some 200, retryCount = None,
          provider = None\<rparr>,
         snd (bloxRoute_executeTransaction (cfgOf False True False None) netRejected 0 [''payer''] w0)) \<and>
   fallbackCalls (snd (bloxRoute_executeTransaction (cfgOf False True False None) netRejected 0
                         [''payer''] w0)) = 0"
proof -
  let ?env = "envOf netOk netRejected netOk (always netOk)"
  let ?c = "cfgOf False True False None"
  let ?p = "bloxRoute_executeTransaction ?c netRejected 0 [''payer''] w0"
  have one: "length (getEnabledProviders ?c) = 1"
    by (simp add: config_defs)
  have en: "\<not> isJitoEnabled ?c" "isBloxRouteEnabled ?c" "bloxRouteNet ?env = netRejected"
    "determineOptimalStrategy ?c = BLOXROUTE_ONLY" "totalElapsed ?env = 200"
    by (simp_all add: config_defs envOf_def)
  have res: "\<not> success (fst ?p)"
    "error (fst ?p) = Some ''BloxRoute execution failed: blockhash not found''"
    by (simp_all add: config_defs run_defs)
  from C7_single_channel_no_fallback[OF one, of ?env 0 "[''payer'']" w0] en res
  show ?thesis
    by (auto simp: w0_def)
qed

section \<open>The hybrid race resolves with the first promise to settle\<close>

lemma startJito_fulfilled:
  "startJito env c a signers ex w = (Inr ex', w') \<Longrightarrow>
     \<forall>p \<in> set ex. \<exists>v. snd p = Fulfilled v \<Longrightarrow> \<forall>p \<in> set ex'. \<exists>v. snd p = Fulfilled v"
  by (auto simp: startJito_def split: if_splits sum.splits prod.splits)

lemma startBloxRoute_fulfilled:
  "startBloxRoute env c a signers ex w = (Inr ex', w') \<Longrightarrow>
     \<forall>p \<in> set ex. \<exists>v. snd p = Fulfilled v \<Longrightarrow> \<forall>p \<in> set ex'. \<exists>v. snd p = Fulfilled v"
  by (auto simp: startBloxRoute_def split: if_splits sum.splits prod.splits)

lemma startNozomi_fulfilled:
  "startNozomi env c a signers ex w = (Inr ex', w') \<Longrightarrow>
     \<forall>p \<in> set ex. \<exists>v. snd p = Fulfilled v \<Longrightarrow> \<forall>p \<in> set ex'. \<exists>v. snd p = Fulfilled v"
  by (auto simp: startNozomi_def split: if_splits sum.splits prod.splits)

lemma promiseAny_all_fulfilled:
  assumes "ps \<noteq> []" "\<forall>p \<in> set ps. \<exists>v. snd p = Fulfilled v"
  shows "\<exists>i v rest. settleOrder ps = (i, Fulfilled v) # rest \<and> promiseAny ps = Some (Inr v)"
proof -
  obtain ev rest where so: "settleOrder ps = ev # rest"
    using assms(1) by (cases "settleOrder ps") auto
  then have "snd ev \<in> snd ` set (settleOrder ps)" by simp
  then have "snd ev \<in> snd ` set ps" by (simp only: settleOrder_settlements)
  with assms(2) obtain v where "snd ev = Fulfilled v" by auto
  then have so': "settleOrder ps = (fst ev, Fulfilled v) # rest"
    using so by (cases ev) simp
  from promiseAny_first_fulfilled[OF so'] so' show ?thesis
    by (intro exI[of _ "fst ev"] exI[of _ v] exI[of _ rest]) simp
qed

lemma start_counters:
  "startJito env c a signers ex w = (x, w') \<Longrightarrow> same_counters w w'"
  "startBloxRoute env c a signers ex w = (x, w') \<Longrightarrow> same_counters w w'"
  "startNozomi env c a signers ex w = (x, w') \<Longrightarrow> same_counters w w'"
  by (auto simp: startJito_def startBloxRoute_def startNozomi_def same_counters_def
        dest!: cloneTransaction_counters jito_counters bloxRoute_counters nozomi_counters
        split: if_splits sum.splits prod.splits)

lemma same_counters_trans: "same_counters w w1 \<Longrightarrow> same_counters w1 w2 \<Longrightarrow> same_counters w w2"
  by (simp add: same_counters_def)

lemma executeHybrid_first_settled:
  assumes "executeHybrid env c a signers w = Some (Inr r, w')"
  shows "same_counters w w' \<and>
         (\<exists>ex1 w1 ex2 w2 executors i rest.
            startJito env c a signers [] w = (Inr ex1, w1) \<and>
            startBloxRoute env c a signers ex1 w1 = (Inr ex2, w2) \<and>
            startNozomi env c a signers ex2 w2 = (Inr executors, w') \<and>
            settleOrder executors = (i, Fulfilled r) # rest)"
proof -
  obtain x1 w1 where s1: "startJito env c a signers [] w = (x1, w1)"
    by (cases "startJito env c a signers [] w")
  obtain ex1 where x1: "x1 = Inr ex1"
    using assms by (cases x1) (simp_all add: executeHybrid_def s1)
  obtain x2 w2 where s2: "startBloxRoute env c a signers ex1 w1 = (x2, w2)"
    by (cases "startBloxRoute env c a signers ex1 w1")
  obtain ex2 where x2: "x2 = Inr ex2"
    using assms by (cases x2) (simp_all add: executeHybrid_def s1 x1 s2)
  obtain x3 w3 where s3: "startNozomi env c a signers ex2 w2 = (x3, w3)"
    by (cases "startNozomi env c a signers ex2 w2")
  obtain ex3 where x3: "x3 = Inr ex3"
    using assms by (cases x3) (simp_all add: executeHybrid_def s1 x1 s2 x2 s3)
  have ne: "ex3 \<noteq> []" and race: "raceOrFallback env c a signers ex3 w3 = Some (Inr r, w')"
    using assms by (simp_all add: executeHybrid_def s1 x1 s2 x2 s3 x3 split: if_splits)
  have f1: "\<forall>p \<in> set ex1. \<exists>v. snd p = Fulfilled v"
    by (rule startJito_fulfilled[OF s1[unfolded x1]]) simp
  have f2: "\<forall>p \<in> set ex2. \<exists>v. snd p = Fulfilled v"
    by (rule startBloxRoute_fulfilled[OF s2[unfolded x2] f1])
  have f3: "\<forall>p \<in> set ex3. \<exists>v. snd p = Fulfilled v"
    by (rule startNozomi_fulfilled[OF s3[unfolded x3] f2])
  from promiseAny_all_fulfilled[OF ne f3] obtain i v rest where
    first: "settleOrder ex3 = (i, Fulfilled v) # rest" "promiseAny ex3 = Some (Inr v)"
    by blast
  with race have v: "v = r" and w3: "w' = w3"
    by (simp_all add: raceOrFallback_def)
  have cnt: "same_counters w w3"
    using start_counters(1)[OF s1] start_counters(2)[OF s2] start_counters(3)[OF s3]
    by (blast intro: same_counters_trans)
  show ?thesis
  proof (intro conjI exI)
    show "same_counters w w'" using cnt w3 by simp
    show "startJito env c a signers [] w = (Inr ex1, w1)" using s1 x1 by simp
    show "startBloxRoute env c a signers ex1 w1 = (Inr ex2, w2)" using s2 x2 by simp
    show "startNozomi env c a signers ex2 w2 = (Inr ex3, w')" using s3 x3 w3 by simp
    show "settleOrder ex3 = (i, Fulfilled r) # rest" using first(1) v by simp
  qed
qed

lemma executeHybrid_no_fallback:
  assumes "executeHybrid env c a signers w = Some (x, w')"
  shows "same_counters w w'"
proof (cases x)
  case (Inr r)
  with assms executeHybrid_first_settled show ?thesis by blast
next
  case (Inl e)
  obtain x1 w1 where s1: "startJito env c a signers [] w = (x1, w1)"
    by (cases "startJito env c a signers [] w")
  obtain x2 w2 where s2: "startBloxRoute env c a signers (projr x1) w1 = (x2, w2)"
    by (cases "startBloxRoute env c a signers (projr x1) w1")
  obtain x3 w3 where s3: "startNozomi env c a signers (projr x2) w2 = (x3, w3)"
    by (cases "startNozomi env c a signers (projr x2) w2")
  have c1: "same_counters w w1" and c2: "same_counters w1 w2" and c3: "same_counters w2 w3"
    using start_counters(1)[OF s1] start_counters(2)[OF s2] start_counters(3)[OF s3] by simp_all
  have "w' = w1 \<or> w' = w2 \<or> w' = w3"
    using assms Inl s1 s2 s3
    by (auto simp: executeHybrid_def raceOrFallback_def
          split: sum.splits prod.splits if_splits option.splits)
  with c1 c2 c3 show ?thesis
    by (blast intro: same_counters_trans)
qed


text \<open>
  Claim C1. The race does not wait for a success: every executor fulfils its promise, with
  \<open>success = False\<close> when it failed, and \<^verbatim>\<open>promiseAny\<close> resolves with the
  first promise fulfilled (\<open>executeHybrid_first_settled\<close>). With Jito and BloxRoute
  enabled, Jito failing at instant 50 and BloxRoute succeeding at instant 80, the result
  of \<^verbatim>\<open>executeTransaction\<close> is Jito's failure.
\<close>

theorem C1_first_settled_failure_wins:
  "fst (jito_executeTransaction (cfgOf True True False None) netDown 1 [''payer''] w0) =
     providerFailure ''jito'' ''Jito execution failed: rpc down'' 50 \<and>
   fst (bloxRoute_executeTransaction (cfgOf True True False None) netOk 2 [''payer''] w0) =
     providerSuccess ''bloxroute'' ''sig'' 80 \<and>
   jitoSettles (envOf netDown netOk netOk (always netOk)) = 50 \<and>
   bloxRouteSettles (envOf netDown netOk netOk (always netOk)) = 80 \<and>
   map_option fst (executeTransaction (envOf netDown netOk netOk (always netOk))
                     (cfgOf True True False None) 0 [''payer''] w0) =
     Some \<lparr>success = False, signature = None,
           error = Some ''Jito execution failed: rpc down'', strategy = Some HYBRID,
           executionTime = Some 200, retryCount = None, provider = None\<rparr>"
  by (simp add: config_defs run_defs)

text \<open>
  Claim C2. For the same reason a hybrid execution never reaches the fallback
  (\<open>executeHybrid_no_fallback\<close>). With Jito and BloxRoute enabled and both failing, and a
  fallback that would succeed at its first attempt, \<^verbatim>\<open>executeTransaction\<close> returns
  the failure of Jito, the first to settle; \<^verbatim>\<open>executeFallback\<close> is not called and
  no direct attempt is made.
\<close>

theorem C2_all_channels_fail_without_fallback:
  "\<not> success (fst (jito_executeTransaction (cfgOf True True False None) netDown 1 [''payer''] w0)) \<and>
   \<not> success (fst (bloxRoute_executeTransaction (cfgOf True True False None) netRejected 2
                     [''payer''] w0)) \<and>
   success (fst (executeFallback (envOf netDown netRejected netOk (always netOk))
                   (cfgOf True True False None) 0 [''payer''] w0)) \<and>
   map_option fst
     (executeTransaction (envOf netDown netRejected netOk (always netOk))
        (cfgOf True True False None) 0 [''payer''] w0) =
     Some \<lparr>success = False, signature = None,
           error = Some ''Jito execution failed: rpc down'', strategy = Some HYBRID,
           executionTime = Some 200, retryCount = None, provider = None\<rparr> \<and>
   map_option (fallbackCalls \<circ> snd)
     (executeTransaction (envOf netDown netRejected netOk (always netOk))
        (cfgOf True True False None) 0 [''payer''] w0) = Some 0 \<and>
   map_option (rpcAttempts \<circ> snd)
     (executeTransaction (envOf netDown netRejected netOk (always netOk))
        (cfgOf True True False None) 0 [''payer''] w0) = Some 0"
  by (simp add: config_defs run_defs)


section \<open>The caller's transaction\<close>

lemma untouched_refl [simp]: "untouched a w w"
  by (simp add: untouched_def)

lemma untouched_trans: "untouched a w w1 \<Longrightarrow> untouched a w1 w2 \<Longrightarrow> untouched a w w2"
  by (simp add: untouched_def)

lemma untouched_modify: "b \<noteq> a \<Longrightarrow> untouched a w w1 \<Longrightarrow> untouched a w (modify b f w1)"
  by (simp add: untouched_def modify_def)

lemma untouched_counters [simp]:
  "untouched a w (w1\<lparr>delays := d\<rparr>) = untouched a w w1"
  "untouched a w (w1\<lparr>fallbackCalls := n\<rparr>) = untouched a w w1"
  "untouched a w (w1\<lparr>rpcAttempts := n\<rparr>) = untouched a w w1"
  "untouched a (w\<lparr>delays := d\<rparr>) w1 = untouched a w w1"
  "untouched a (w\<lparr>fallbackCalls := n\<rparr>) w1 = untouched a w w1"
  "untouched a (w\<lparr>rpcAttempts := n\<rparr>) w1 = untouched a w w1"
  by (simp_all add: untouched_def)

lemma untouched_signatures:
  "untouched a w w1 \<Longrightarrow> untouched a w (modify b (\<lambda>t. t\<lparr>signatures := x\<rparr>) w1)"
  by (auto simp: untouched_def modify_def)

lemma cloneTransaction_frame:
  assumes "cloneTransaction env b w = (x, w')" "a < nextAddr w"
  shows "untouched a w w'" "x = Inr t \<Longrightarrow> a < t \<and> t < nextAddr w'"
  using assms
  by (auto simp: cloneTransaction_def Let_def untouched_def modify_def split: sum.splits)

lemma addTip_frame:
  "addTip net t i tip w1 = Inr w' \<Longrightarrow> t \<noteq> a \<Longrightarrow> untouched a w w1 \<Longrightarrow> untouched a w w'"
  by (auto simp: addTip_def untouched_modify split: if_splits option.splits)

lemma jito_try_frame:
  "jito_try c net t signers w = (x, w') \<Longrightarrow> t \<noteq> a \<Longrightarrow> untouched a w w'"
  by (auto simp: jito_try_def Let_def untouched_modify
        split: sum.splits option.splits prod.splits bool.splits)

lemma jito_frame:
  "jito_executeTransaction c net t signers w = (r, w') \<Longrightarrow> t \<noteq> a \<Longrightarrow> untouched a w w'"
  by (auto simp: jito_executeTransaction_def dest: jito_try_frame split: sum.splits prod.splits)

lemma bloxRoute_try_frame:
  "bloxRoute_try c net t signers w = (x, w') \<Longrightarrow> t \<noteq> a \<Longrightarrow> untouched a w w'"
  by (auto simp: bloxRoute_try_def Let_def untouched_modify
        dest!: addTip_frame[where a = a and w = w]
        split: sum.splits option.splits prod.splits if_splits)

lemma bloxRoute_frame:
  "bloxRoute_executeTransaction c net t signers w = (r, w') \<Longrightarrow> t \<noteq> a \<Longrightarrow> untouched a w w'"
  by (auto simp: bloxRoute_executeTransaction_def dest: bloxRoute_try_frame
        split: sum.splits prod.splits)

lemma nozomi_try_frame:
  assumes "nozomi_try env c net b signers w = (x, w')" "a < nextAddr w"
  shows "untouched a w w'"
proof -
  obtain y w0 where cl: "cloneTransaction env b w = (y, w0)"
    by (cases "cloneTransaction env b w")
  note fr = cloneTransaction_frame[OF cl assms(2)]
  show ?thesis
  proof (cases y)
    case (Inl e)
    with assms(1) cl fr(1) show ?thesis by (simp add: nozomi_try_def)
  next
    case (Inr t)
    with fr(2) have ne: "t \<noteq> a" by auto
    note tip = addTip_frame[OF _ ne fr(1)]
    from assms(1) cl Inr fr(1) show ?thesis
      by (auto simp: nozomi_try_def Let_def untouched_modify[OF ne] dest!: tip
            split: sum.splits option.splits prod.splits if_splits)
  qed
qed

lemma nozomi_frame:
  "nozomi_executeTransaction env c net b signers w = (r, w') \<Longrightarrow> a < nextAddr w \<Longrightarrow>
     untouched a w w'"
  by (auto simp: nozomi_executeTransaction_def dest: nozomi_try_frame split: sum.splits prod.splits)

lemma fallback_try_frame:
  assumes "fallback_try env c net b signers w = (x, w')" "a < nextAddr w"
  shows "untouched a w w'"
proof (cases "getLatestBlockhash net")
  case (Inl e)
  with assms(1) show ?thesis by (simp add: fallback_try_def)
next
  case (Inr bh)
  obtain y w0 where cl: "cloneTransaction env b w = (y, w0)"
    by (cases "cloneTransaction env b w")
  note fr = cloneTransaction_frame[OF cl assms(2)]
  show ?thesis
  proof (cases y)
    case (Inl e)
    with assms(1) cl fr(1) Inr show ?thesis
      by (simp add: fallback_try_def split: prod.splits)
  next
    case t: (Inr t)
    with fr(2) have ne: "t \<noteq> a" by auto
    from assms(1) cl t Inr fr(1) show ?thesis
      by (auto simp: fallback_try_def Let_def untouched_modify[OF ne]
            split: sum.splits option.splits prod.splits)
  qed
qed

lemma fallback_loop_frame:
  "fallback_loop env c b signers m r w = (res, w') \<Longrightarrow> a < nextAddr w \<Longrightarrow> untouched a w w'"
proof (induction env c b signers m r w arbitrary: res w' rule: fallback_loop.induct)
  case (1 env c b signers m r w)
  note step = fallback_loop.simps[of env c b signers m r w]
  show ?case
  proof (cases "int r < m")
    case False
    with "1.prems" show ?thesis by (simp add: step)
  next
    case True
    obtain x w1 where try1:
      "fallback_try env c (rpcNet env r) b signers (w\<lparr>rpcAttempts := Suc (rpcAttempts w)\<rparr>) = (x, w1)"
      by (cases "fallback_try env c (rpcNet env r) b signers (w\<lparr>rpcAttempts := Suc (rpcAttempts w)\<rparr>)")
    have u1: "untouched a w w1"
      using fallback_try_frame[OF try1, of a] "1.prems"(2) by simp
    show ?thesis
    proof (cases x)
      case (Inr sig)
      with True try1 "1.prems"(1) u1 show ?thesis by (simp add: step)
    next
      case (Inl e)
      show ?thesis
      proof (cases "m \<le> int (Suc r)")
        case last: True
        with True Inl try1 "1.prems"(1) u1 show ?thesis by (simp add: step)
      next
        case more: False
        let ?w2 = "w1\<lparr>delays := delays w1 @ [1000 * Suc r]\<rparr>"
        have rec: "fallback_loop env c b signers m (Suc r) ?w2 = (res, w')"
          using True Inl try1 more "1.prems"(1) by (simp add: step)
        have "a < nextAddr ?w2"
          using u1 "1.prems"(2) by (simp add: untouched_def)
        from "1.IH"[OF True try1[symmetric] Inl more rec this] u1 show ?thesis
          by (auto intro: untouched_trans)
      qed
    qed
  qed
qed

lemma executeFallback_frame:
  "executeFallback env c b signers w = (res, w') \<Longrightarrow> a < nextAddr w \<Longrightarrow> untouched a w w'"
  using fallback_loop_frame[of env c b signers "effectiveMaxRetries c" 0
          "w\<lparr>fallbackCalls := Suc (fallbackCalls w)\<rparr>" res w' a]
  by (simp add: executeFallback_def)

lemma startJito_frame:
  assumes "startJito env c a signers ex w = (x, w')" "a < nextAddr w"
  shows "untouched a w w'"
proof (cases "isJitoEnabled c")
  case False
  with assms(1) show ?thesis by (simp add: startJito_def)
next
  case True
  obtain y w1 where cl: "cloneTransaction env a w = (y, w1)"
    by (cases "cloneTransaction env a w")
  note fr = cloneTransaction_frame[OF cl assms(2)]
  show ?thesis
  proof (cases y)
    case (Inl e)
    with assms(1) True cl fr(1) show ?thesis by (simp add: startJito_def)
  next
    case (Inr t)
    obtain r w2 where run: "jito_executeTransaction c (jitoNet env) t signers w1 = (r, w2)"
      by (cases "jito_executeTransaction c (jitoNet env) t signers w1")
    from fr(2)[OF Inr] have "t \<noteq> a" by auto
    from jito_frame[OF run this] fr(1) have "untouched a w w2"
      by (rule untouched_trans[rotated])
    with assms(1) True cl Inr run show ?thesis by (simp add: startJito_def)
  qed
qed

lemma startBloxRoute_frame:
  assumes "startBloxRoute env c a signers ex w = (x, w')" "a < nextAddr w"
  shows "untouched a w w'"
proof (cases "isBloxRouteEnabled c")
  case False
  with assms(1) show ?thesis by (simp add: startBloxRoute_def)
next
  case True
  obtain y w1 where cl: "cloneTransaction env a w = (y, w1)"
    by (cases "cloneTransaction env a w")
  note fr = cloneTransaction_frame[OF cl assms(2)]
  show ?thesis
  proof (cases y)
    case (Inl e)
    with assms(1) True cl fr(1) show ?thesis by (simp add: startBloxRoute_def)
  next
    case (Inr t)
    obtain r w2 where run:
      "bloxRoute_executeTransaction c (bloxRouteNet env) t signers w1 = (r, w2)"
      by (cases "bloxRoute_executeTransaction c (bloxRouteNet env) t signers w1")
    from fr(2)[OF Inr] have "t \<noteq> a" by auto
    from bloxRoute_frame[OF run this] fr(1) have "untouched a w w2"
      by (rule untouched_trans[rotated])
    with assms(1) True cl Inr run show ?thesis by (simp add: startBloxRoute_def)
  qed
qed

lemma startNozomi_frame:
  assumes "startNozomi env c a signers ex w = (x, w')" "a < nextAddr w"
  shows "untouched a w w'"
proof (cases "isNozomiEnabled c")
  case False
  with assms(1) show ?thesis by (simp add: startNozomi_def)
next
  case True
  obtain y w1 where cl: "cloneTransaction env a w = (y, w1)"
    by (cases "cloneTransaction env a w")
  note fr = cloneTransaction_frame[OF cl assms(2)]
  show ?thesis
  proof (cases y)
    case (Inl e)
    with assms(1) True cl fr(1) show ?thesis by (simp add: startNozomi_def)
  next
    case (Inr t)
    obtain r w2 where run:
      "nozomi_executeTransaction env c (nozomiNet env) t signers w1 = (r, w2)"
      by (cases "nozomi_executeTransaction env c (nozomiNet env) t signers w1")
    have "a < nextAddr w1" using fr(1) assms(2) by (simp add: untouched_def)
    from nozomi_frame[OF run this] fr(1) have "untouched a w w2"
      by (rule untouched_trans[rotated])
    with assms(1) True cl Inr run show ?thesis by (simp add: startNozomi_def)
  qed
qed

lemma raceOrFallback_frame:
  assumes "raceOrFallback env c a signers executors w = Some (x, w')" "a < nextAddr w"
  shows "untouched a w w'"
  using assms
  by (auto simp: raceOrFallback_def dest: executeFallback_frame
        split: option.splits sum.splits prod.splits)

lemma executeHybrid_frame:
  assumes "executeHybrid env c a signers w = Some (x, w')" "a < nextAddr w"
  shows "untouched a w w'"
proof -
  obtain x1 w1 where s1: "startJito env c a signers [] w = (x1, w1)"
    by (cases "startJito env c a signers [] w")
  obtain x2 w2 where s2: "startBloxRoute env c a signers (projr x1) w1 = (x2, w2)"
    by (cases "startBloxRoute env c a signers (projr x1) w1")
  obtain x3 w3 where s3: "startNozomi env c a signers (projr x2) w2 = (x3, w3)"
    by (cases "startNozomi env c a signers (projr x2) w2")
  have u1: "untouched a w w1" by (rule startJito_frame[OF s1 assms(2)])
  then have a1: "a < nextAddr w1" using assms(2) by (simp add: untouched_def)
  have u2: "untouched a w1 w2" by (rule startBloxRoute_frame[OF s2 a1])
  then have a2: "a < nextAddr w2" using a1 by (simp add: untouched_def)
  have u3: "untouched a w2 w3" by (rule startNozomi_frame[OF s3 a2])
  then have a3: "a < nextAddr w3" using a2 by (simp add: untouched_def)
  have u13: "untouched a w w3" "untouched a w w2"
    using u1 u2 u3 by (blast intro: untouched_trans)+
  have "w' = w1 \<or> w' = w2 \<or> w' = w3 \<or>
        raceOrFallback env c a signers (projr x3) w3 = Some (x, w')"
    using assms(1) s1 s2 s3
    by (cases x1; cases x2; cases x3) (simp_all add: executeHybrid_def split: if_splits)
  then show ?thesis
    using u1 u13 raceOrFallback_frame[OF _ a3] by (blast intro: untouched_trans)
qed

lemma original_kept_on_cloning_paths:
  assumes "executeTransaction env c a signers w = Some (r, w')" "a < nextAddr w"
    "determineOptimalStrategy c = HYBRID \<or> determineOptimalStrategy c = NOZOMI_ONLY \<or>
     determineOptimalStrategy c = FALLBACK"
  shows "instructions (heap w' a) = instructions (heap w a) \<and>
         recentBlockhash (heap w' a) = recentBlockhash (heap w a) \<and>
         lastValidBlockHeight (heap w' a) = lastValidBlockHeight (heap w a) \<and>
         feePayer (heap w' a) = feePayer (heap w a)"
proof -
  obtain x where run:
    "executeWithStrategy env c a signers (determineOptimalStrategy c) w = Some (x, w')"
    using assms(1) by (auto simp: executeTransaction_def Let_def split: option.splits)
  have "untouched a w w'"
    using assms(3) run assms(2)
    by (auto dest: executeHybrid_frame nozomi_frame executeFallback_frame
          split: if_splits prod.splits)
  then have "(heap w' a)\<lparr>signatures := []\<rparr> = (heap w a)\<lparr>signatures := []\<rparr>"
    by (simp add: untouched_def)
  then show ?thesis
    by (cases "heap w' a"; cases "heap w a") simp
qed

text \<open>
  Claim C3. The hybrid, Nozomi-only and fallback strategies work on clones: they leave
  the caller's transaction as it was, but for its signatures array, which
  \<^verbatim>\<open>serialize\<close> recompiles when the clone is made
  (\<open>original_kept_on_cloning_paths\<close>). The BloxRoute-only and Jito-only strategies
  pass the caller's transaction itself to an executor that writes to it: after
  \<^verbatim>\<open>executeTransaction\<close> the object at the caller's address carries the fresh
  blockhash, the fee payer, the signers and, for BloxRoute, one more instruction (the tip).
\<close>

theorem C3_single_channel_mutates_original:
  "heap w0 0 = tx0 \<and>
   executeTransaction (envOf netOk netOk netOk (always netOk))
     (cfgOf False True False None) 0 [''payer''] w0 \<noteq> None \<and>
   heap (snd (the (executeTransaction (envOf netOk netOk netOk (always netOk))
                     (cfgOf False True False None) 0 [''payer''] w0))) 0 =
     \<lparr>instructions = [Instruction ''create'',
                       Transfer ''wallet'' bloxRouteTipWallet (Finite 1000000)],
      recentBlockhash = Some ''blockhash'', lastValidBlockHeight = None,
      feePayer = Some ''wallet'', signatures = [''payer'']\<rparr> \<and>
   heap (snd (the (executeTransaction (envOf netOk netOk netOk (always netOk))
                     (cfgOf False True False None) 0 [''payer''] w0))) 0 \<noteq> heap w0 0 \<and>
   executeTransaction (envOf netOk netOk netOk (always netOk))
     (cfgOf True False False None) 0 [''payer''] w0 \<noteq> None \<and>
   heap (snd (the (executeTransaction (envOf netOk netOk netOk (always netOk))
                     (cfgOf True False False None) 0 [''payer''] w0))) 0 =
     \<lparr>instructions = [Instruction ''create''],
      recentBlockhash = Some ''blockhash'', lastValidBlockHeight = None,
      feePayer = Some ''wallet'', signatures = [''payer'']\<rparr> \<and>
   heap (snd (the (executeTransaction (envOf netOk netOk netOk (always netOk))
                     (cfgOf True False False None) 0 [''payer''] w0))) 0 \<noteq> heap w0 0"
  by (simp add: config_defs run_defs)


section \<open>The error message of a failed fallback\<close>



section \<open>The public entry point never throws\<close>













section \<open>Error strings after a hybrid race\<close>

text \<open>
  Claim C6. No error string is aggregated. \<^verbatim>\<open>promiseAny\<close> keeps the rejections
  in an array it never reads, and the \<^verbatim>\<open>catch\<close> of \<^verbatim>\<open>executeHybrid\<close>,
  the only place that runs the fallback after a race, is not reached when the providers
  fail, because their promises are fulfilled (\<open>executeHybrid_no_fallback\<close>). With Jito
  and BloxRoute enabled and both failing, and a direct path that fails as well, the error
  of the result of \<^verbatim>\<open>executeTransaction\<close> is the string of Jito, the first to
  settle: it contains neither BloxRoute's string nor the fallback's, and the fallback is
  not called.
\<close>

theorem C6_channel_errors_not_aggregated:
  "error (fst (jito_executeTransaction (cfgOf True True False None) netDown 1 [''payer''] w0)) =
     Some ''Jito execution failed: rpc down'' \<and>
   error (fst (bloxRoute_executeTransaction (cfgOf True True False None) netRejected 2
                 [''payer''] w0)) =
     Some ''BloxRoute execution failed: blockhash not found'' \<and>
   error (fst (executeFallback (envOf netDown netRejected netDown (always netDown))
                 (cfgOf True True False None) 0 [''payer''] w0)) =
     Some ''Fallback execution failed: rpc down'' \<and>
   map_option fst
     (executeTransaction (envOf netDown netRejected netDown (always netDown))
        (cfgOf True True False None) 0 [''payer''] w0) =
     Some \<lparr>success = False, signature = None,
           error = Some ''Jito execution failed: rpc down'', strategy = Some HYBRID,
           executionTime = Some 200, retryCount = None, provider = None\<rparr> \<and>
   \<not> sublist ''BloxRoute execution failed: blockhash not found''
       ''Jito execution failed: rpc down'' \<and>
   \<not> sublist ''Fallback execution failed: rpc down'' ''Jito execution failed: rpc down'' \<and>
   map_option (fallbackCalls \<circ> snd)
     (executeTransaction (envOf netDown netRejected netDown (always netDown))
        (cfgOf True True False None) 0 [''payer''] w0) = Some 0"
proof (intro conjI)
  show "\<not> sublist ''BloxRoute execution failed: blockhash not found''
       ''Jito execution failed: rpc down''"
    by code_simp
  show "\<not> sublist ''Fallback execution failed: rpc down'' ''Jito execution failed: rpc down''"
    by code_simp
qed (simp_all add: config_defs run_defs)

end
